theory Spec2Isabelle
  imports Main "HOL-Library.Sublist"
begin

section \<open>Python strings\<close>

text \<open>
  A Python \<^verbatim>\<open>str\<close> is a sequence of Unicode code points. The program prints Korean text
  and calls \<^verbatim>\<open>str.strip\<close> and \<^verbatim>\<open>str.splitlines\<close>, which both look at code points outside
  ASCII, so a string is modelled as the list of its code points. ASCII runs of a literal are
  written with \<open>ascii\<close>; every other character is written as its code point.
\<close>

type_synonym pystr = "nat list"

definition ascii :: "string \<Rightarrow> pystr" where
  "ascii s = map of_char s"

text \<open>
  \<^verbatim>\<open>str.isspace\<close> on one character: the characters CPython classifies as whitespace.
  \<^verbatim>\<open>str.strip()\<close> with no argument removes exactly these from both ends.
\<close>

definition whitespace :: "nat list" where
  "whitespace =
    [0x09, 0x0A, 0x0B, 0x0C, 0x0D, 0x1C, 0x1D, 0x1E, 0x1F, 0x20, 0x85, 0xA0, 0x1680,
     0x2000, 0x2001, 0x2002, 0x2003, 0x2004, 0x2005, 0x2006, 0x2007, 0x2008, 0x2009, 0x200A,
     0x2028, 0x2029, 0x202F, 0x205F, 0x3000]"

definition isspace :: "nat \<Rightarrow> bool" where
  "isspace c = (c \<in> set whitespace)"

definition lstrip :: "pystr \<Rightarrow> pystr" where
  "lstrip s = dropWhile isspace s"

definition rstrip :: "pystr \<Rightarrow> pystr" where
  "rstrip s = rev (dropWhile isspace (rev s))"

definition strip :: "pystr \<Rightarrow> pystr" where
  "strip s = rstrip (lstrip s)"

text \<open>
  \<^verbatim>\<open>str.splitlines()\<close>: the string is cut at every line boundary, and the boundaries are
  not kept. The boundaries are LF, VT, FF, CR, FS, GS, RS, NEL, LINE SEPARATOR and PARAGRAPH
  SEPARATOR, with CR LF counting as one. No empty line is produced after a final boundary,
  and the empty string has no lines.
\<close>

definition linebreaks :: "nat list" where
  "linebreaks = [0x0A, 0x0B, 0x0C, 0x0D, 0x1C, 0x1D, 0x1E, 0x85, 0x2028, 0x2029]"

definition is_linebreak :: "nat \<Rightarrow> bool" where
  "is_linebreak c = (c \<in> set linebreaks)"

fun splitlines_from :: "pystr \<Rightarrow> pystr \<Rightarrow> pystr list" where
  "splitlines_from cur [] = (if cur = [] then [] else [cur])"
| "splitlines_from cur [c] = (if is_linebreak c then [cur] else [cur @ [c]])"
| "splitlines_from cur (c # d # cs) =
    (if c = 0x0D \<and> d = 0x0A then cur # splitlines_from [] cs
     else if is_linebreak c then cur # splitlines_from [] (d # cs)
     else splitlines_from (cur @ [c]) (d # cs))"

definition splitlines :: "pystr \<Rightarrow> pystr list" where
  "splitlines s = splitlines_from [] s"

text \<open>\<^verbatim>\<open>str(n)\<close> for a non-negative integer: its decimal digits.\<close>

fun str_nat :: "nat \<Rightarrow> pystr" where
  "str_nat n = (if n < 10 then [48 + n] else str_nat (n div 10) @ [48 + n mod 10])"

declare str_nat.simps [simp del]

text \<open>\<^verbatim>\<open>str(v)\<close> for a value that is a string or \<^verbatim>\<open>None\<close>.\<close>

fun str_of :: "pystr option \<Rightarrow> pystr" where
  "str_of None = ascii ''None''"
| "str_of (Some s) = s"


section \<open>The outside world\<close>

text \<open>
  Exceptions carry the class that decides which handler catches them, and their
  \<^verbatim>\<open>str()\<close>. \<open>FileNotFoundError\<close> and \<open>OtherException\<close> are subclasses of
  \<^verbatim>\<open>Exception\<close>; \<open>NonException\<close> stands for the classes that derive from
  \<^verbatim>\<open>BaseException\<close> only (\<^verbatim>\<open>KeyboardInterrupt\<close>, \<^verbatim>\<open>SystemExit\<close>), which
  \<^verbatim>\<open>except Exception\<close> does not catch.
\<close>

datatype exc_class = FileNotFoundError | OtherException | NonException

datatype exc = Exc exc_class pystr

fun is_Exception :: "exc \<Rightarrow> bool" where
  "is_Exception (Exc c m) = (c \<noteq> NonException)"

fun str_exc :: "exc \<Rightarrow> pystr" where
  "str_exc (Exc c m) = m"

text \<open>A finished child process: return code, captured stdout, captured stderr (both text).\<close>

datatype completed = Completed int pystr pystr

text \<open>What \<^verbatim>\<open>parse_args\<close> does with the command line.\<close>

datatype parse_result = Parsed pystr | HelpExit | UsageError

text \<open>
  Everything the program reads from outside is a field of the world:
  \<^item> \<open>subprocess_run argv\<close>: what \<^verbatim>\<open>subprocess.run(argv, capture_output=True, text=True)\<close>
    does before \<^verbatim>\<open>check\<close> is applied: the finished process, or the exception raised when it
    could not be started;
  \<^item> \<open>getenv name\<close>: the process environment after \<^verbatim>\<open>load_dotenv()\<close>;
  \<^item> \<open>openai_client key\<close>: what the constructor \<^verbatim>\<open>OpenAI(api_key=key)\<close> does: \<open>None\<close> when
    it returns the client, \<open>Some e\<close> when it raises \<open>e\<close>;
  \<^item> \<open>chat_create key model messages\<close>: the remote chat completion made through a client built
    with \<open>key\<close>; it raises, or returns the \<^verbatim>\<open>message.content\<close> of each choice (a string or
    \<^verbatim>\<open>None\<close>).
\<close>

record world =
  subprocess_run :: "pystr list \<Rightarrow> exc + completed"
  getenv :: "pystr \<Rightarrow> pystr option"
  openai_client :: "pystr \<Rightarrow> exc option"
  chat_create :: "pystr \<Rightarrow> pystr \<Rightarrow> (pystr \<times> pystr) list \<Rightarrow> exc + pystr option list"

text \<open>What a run does, in order.\<close>

datatype event =
    Print pystr
  | Subprocess "pystr list"
  | Getenv pystr
  | ChatCompletion pystr pystr "(pystr \<times> pystr) list"
  | PrintHelp
  | PrintUsageError

fun is_remote_call :: "event \<Rightarrow> bool" where
  "is_remote_call (ChatCompletion k m ms) = True"
| "is_remote_call e = False"

text \<open>The argument vectors passed to \<^verbatim>\<open>subprocess.run\<close>, in order.\<close>

fun commands :: "event list \<Rightarrow> pystr list list" where
  "commands [] = []"
| "commands (Subprocess argv # es) = argv # commands es"
| "commands (e # es) = commands es"

text \<open>The strings printed, in order.\<close>

fun printed :: "event list \<Rightarrow> pystr list" where
  "printed [] = []"
| "printed (Print s # es) = s # printed es"
| "printed (e # es) = printed es"


section \<open>\<^verbatim>\<open>get_git_info\<close>\<close>

record gitinfo =
  branch_name :: pystr
  commit_logs :: pystr
  code_diff :: pystr

definition rev_parse_cmd :: "pystr list" where
  "rev_parse_cmd = [ascii ''git'', ascii ''rev-parse'', ascii ''--abbrev-ref'', ascii ''HEAD'']"

definition log_cmd :: "pystr \<Rightarrow> pystr list" where
  "log_cmd base_branch =
    [ascii ''git'', ascii ''log'', base_branch @ ascii ''..HEAD'', ascii ''--oneline'',
     ascii ''--pretty=format:%s'']"

definition diff_cmd :: "pystr \<Rightarrow> pystr list" where
  "diff_cmd base_branch = [ascii ''git'', ascii ''diff'', base_branch @ ascii ''...HEAD'']"

text \<open>
  \<^verbatim>\<open>subprocess.run(..., check=True)\<close>: a non-zero return code raises
  \<^verbatim>\<open>CalledProcessError\<close>, which carries the captured stderr; otherwise the captured stdout
  is what the caller reads.
\<close>

datatype run_failure = CalledProcessError pystr | Raised exc

definition run_checked :: "world \<Rightarrow> pystr list \<Rightarrow> run_failure + pystr" where
  "run_checked w argv =
    (case subprocess_run w argv of
       Inl e \<Rightarrow> Inl (Raised e)
     | Inr (Completed rc out err) \<Rightarrow> if rc = 0 then Inr out else Inl (CalledProcessError err))"

text \<open>"An error occurred while running the Git command: " followed by the stderr text.\<close>

definition git_error_prefix :: pystr where
  "git_error_prefix =
    ascii ''Git '' @ [0xBA85, 0xB839, 0xC5B4] @ ascii '' '' @ [0xC2E4, 0xD589] @ ascii '' '' @
    [0xC911] @ ascii '' '' @ [0xC624, 0xB958, 0xAC00] @ ascii '' '' @
    [0xBC1C, 0xC0DD, 0xD588, 0xC2B5, 0xB2C8, 0xB2E4] @ ascii '': ''"

text \<open>"Git is not installed or not on the path. Please install Git."\<close>

definition git_missing_message :: pystr where
  "git_missing_message =
    ascii ''Git'' @ [0xC774] @ ascii '' '' @ [0xC124, 0xCE58, 0xB418, 0xC5B4] @ ascii '' '' @
    [0xC788, 0xC9C0] @ ascii '' '' @ [0xC54A, 0xAC70, 0xB098] @ ascii '' '' @
    [0xACBD, 0xB85C, 0xC5D0] @ ascii '' '' @ [0xC5C6, 0xC2B5, 0xB2C8, 0xB2E4] @
    ascii ''. Git'' @ [0xC744] @ ascii '' '' @ [0xC124, 0xCE58, 0xD574, 0xC8FC, 0xC138, 0xC694] @
    ascii ''.''"

text \<open>
  The two handlers of \<^verbatim>\<open>get_git_info\<close>: \<^verbatim>\<open>CalledProcessError\<close> and
  \<^verbatim>\<open>FileNotFoundError\<close> print a message and return \<^verbatim>\<open>None\<close>; any other exception
  leaves the function.
\<close>

fun handle_git_failure :: "run_failure \<Rightarrow> event list \<times> (exc + gitinfo option)" where
  "handle_git_failure (CalledProcessError err) = ([Print (git_error_prefix @ err)], Inr None)"
| "handle_git_failure (Raised (Exc FileNotFoundError m)) = ([Print git_missing_message], Inr None)"
| "handle_git_failure (Raised (Exc OtherException m)) = ([], Inl (Exc OtherException m))"
| "handle_git_failure (Raised (Exc NonException m)) = ([], Inl (Exc NonException m))"

text \<open>
  The three commands run in order inside one \<^verbatim>\<open>try\<close>; the first that fails ends the
  function. The result is the events and either the exception that left the function or
  the returned value (\<^verbatim>\<open>None\<close>, or the dictionary).
\<close>

definition get_git_info :: "world \<Rightarrow> pystr \<Rightarrow> event list \<times> (exc + gitinfo option)" where
  "get_git_info w base_branch =
    (case run_checked w rev_parse_cmd of
       Inl f \<Rightarrow>
         ([Subprocess rev_parse_cmd] @ fst (handle_git_failure f), snd (handle_git_failure f))
     | Inr out1 \<Rightarrow>
        (case run_checked w (log_cmd base_branch) of
           Inl f \<Rightarrow>
             ([Subprocess rev_parse_cmd, Subprocess (log_cmd base_branch)] @
                fst (handle_git_failure f),
              snd (handle_git_failure f))
         | Inr out2 \<Rightarrow>
            (case run_checked w (diff_cmd base_branch) of
               Inl f \<Rightarrow>
                 ([Subprocess rev_parse_cmd, Subprocess (log_cmd base_branch),
                   Subprocess (diff_cmd base_branch)] @ fst (handle_git_failure f),
                  snd (handle_git_failure f))
             | Inr out3 \<Rightarrow>
                 ([Subprocess rev_parse_cmd, Subprocess (log_cmd base_branch),
                   Subprocess (diff_cmd base_branch)],
                  Inr (Some \<lparr>branch_name = strip out1, commit_logs = strip out2,
                             code_diff = out3\<rparr>)))))"


section \<open>\<^verbatim>\<open>generate_pr_message\<close>\<close>

subsection \<open>The prompt\<close>

text \<open>
  The prompt is one f-string: fixed text with three holes. The fixed text is given line by
  line as the source has it. Each line of the literal is indented by eight spaces, and the
  literal begins with a line feed and ends with four spaces. The three section headers the
  model is asked to follow are named: "### Title", "### Description", "### Key changes".
\<close>

definition header_title :: pystr where
  "header_title = ascii ''### '' @ [0xC81C, 0xBAA9]"

definition header_description :: pystr where
  "header_description = ascii ''### '' @ [0xC124, 0xBA85]"

definition header_key_changes :: pystr where
  "header_key_changes =
    ascii ''### '' @ [0xC8FC, 0xC694] @ ascii '' '' @ [0xBCC0, 0xACBD] @ ascii '' '' @
    [0xC0AC, 0xD56D]"

text \<open>From the start of the literal to the title header: the role and the task.\<close>

definition prompt_intro :: pystr where
  "prompt_intro =
    [10] @
    ascii ''        '' @ [0xB2F9, 0xC2E0, 0xC740] @ ascii '' '' @ [0xB6F0, 0xC5B4, 0xB09C] @
      ascii '' '' @ [0xAC1C, 0xBC1C, 0xC790, 0xB85C] @ ascii '', Git '' @
      [0xBCC0, 0xACBD, 0xC0AC, 0xD56D, 0xC744] @ ascii '' '' @ [0xBCF4, 0xACE0] @ ascii '' '' @
      [0xBA85, 0xD655, 0xD558, 0xACE0] @ ascii '' '' @ [0xAC04, 0xACB0, 0xD55C] @
      ascii '' GitHub Pull Request '' @ [0xBA54, 0xC2DC, 0xC9C0, 0xB97C] @ ascii '' '' @
      [0xD55C, 0xAD6D, 0xC5B4, 0xB85C] @ ascii '' '' @ [0xC791, 0xC131, 0xD558, 0xB294] @
      ascii '' '' @ [0xC804, 0xBB38, 0xAC00, 0xC785, 0xB2C8, 0xB2E4] @ ascii ''.'' @ [10] @
    [10] @
    ascii ''        '' @ [0xC544, 0xB798] @ ascii '' '' @ [0xC81C, 0xACF5, 0xB418, 0xB294] @
      ascii '' '' @ [0xBE0C, 0xB79C, 0xCE58] @ ascii '' '' @ [0xC774, 0xB984] @ ascii '', '' @
      [0xCEE4, 0xBC0B] @ ascii '' '' @ [0xB85C, 0xADF8] @ ascii '', '' @
      [0xADF8, 0xB9AC, 0xACE0] @ ascii '' '' @ [0xCF54, 0xB4DC] @ ascii '' '' @
      [0xBCC0, 0xACBD, 0xC0AC, 0xD56D] @ ascii ''(diff)'' @ [0xC744] @ ascii '' '' @
      [0xBC14, 0xD0D5, 0xC73C, 0xB85C] @ ascii '' '' @ [0xB2E4, 0xC74C] @ ascii '' '' @
      [0xD615, 0xC2DD, 0xC5D0] @ ascii '' '' @ [0xB9DE, 0xCDB0] @ ascii '' PR '' @
      [0xBA54, 0xC2DC, 0xC9C0, 0xB97C] @ ascii '' '' @
      [0xC0DD, 0xC131, 0xD574, 0xC8FC, 0xC138, 0xC694] @ ascii ''.'' @ [10] @
    [10] @
    ascii ''        **'' @ [0xD615, 0xC2DD] @ ascii '':**'' @ [10] @
    ascii ''        ''"

text \<open>Between the title header and the description header.\<close>

definition prompt_after_title :: pystr where
  "prompt_after_title =
    [10] @
    ascii ''        ['' @ [0xAE30, 0xB2A5] @ ascii ''/'' @ [0xC218, 0xC815] @ ascii ''] '' @
      [0xD55C] @ ascii '' '' @ [0xC904, 0xB85C] @ ascii '' '' @ [0xD575, 0xC2EC] @ ascii '' '' @
      [0xBCC0, 0xACBD] @ ascii '' '' @ [0xB0B4, 0xC6A9] @ ascii '' '' @ [0xC694, 0xC57D, 10] @
    [10] @
    ascii ''        ''"

text \<open>Between the description header and the key-changes header.\<close>

definition prompt_after_description :: pystr where
  "prompt_after_description =
    [10] @
    ascii ''        - '' @ [0xC774] @ ascii '' PR'' @ [0xC774] @ ascii '' '' @
      [0xD544, 0xC694, 0xD55C] @ ascii '' '' @ [0xC774, 0xC720, 0xC640] @ ascii '' '' @
      [0xBC30, 0xACBD, 0xC744] @ ascii '' '' @ [0xC124, 0xBA85, 0xD574, 0xC8FC, 0xC138, 0xC694] @
      ascii ''.'' @ [10] @
    ascii ''        - '' @ [0xC5B4, 0xB5A4] @ ascii '' '' @ [0xBB38, 0xC81C, 0xB97C] @ ascii '' '' @
      [0xD574, 0xACB0, 0xD558, 0xB294, 0xC9C0] @ ascii '' '' @
      [0xC791, 0xC131, 0xD574, 0xC8FC, 0xC138, 0xC694] @ ascii ''.'' @ [10] @
    [10] @
    ascii ''        ''"

text \<open>From the key-changes header to the first hole (the branch name).\<close>

definition prompt_after_key_changes :: pystr where
  "prompt_after_key_changes =
    [10] @
    ascii ''        - '' @ [0xCF54, 0xB4DC] @ ascii '' '' @ [0xBCC0, 0xACBD] @ ascii '' '' @
      [0xC0AC, 0xD56D, 0xC744] @ ascii '' '' @ [0xAD6C, 0xCCB4, 0xC801, 0xC778] @ ascii '' '' @
      [0xD56D, 0xBAA9, 0xC73C, 0xB85C] @ ascii '' '' @ [0xB098, 0xB220, 0xC11C] @ ascii '' '' @
      [0xC694, 0xC57D, 0xD574, 0xC8FC, 0xC138, 0xC694] @ ascii ''.'' @ [10] @
    [10] @
    ascii ''        ---'' @ [10] @
    [10] @
    ascii ''        **['' @ [0xC785, 0xB825] @ ascii '' '' @ [0xC815, 0xBCF4] @ ascii '']**'' @ [10] @
    ascii ''        **'' @ [0xBE0C, 0xB79C, 0xCE58] @ ascii '' '' @ [0xC774, 0xB984] @
      ascii '':**'' @ [10] @
    ascii ''        ''"

text \<open>Between the branch name and the commit logs.\<close>

definition prompt_before_logs :: pystr where
  "prompt_before_logs =
    [10] @
    [10] @
    ascii ''        **'' @ [0xCEE4, 0xBC0B] @ ascii '' '' @ [0xB85C, 0xADF8] @ ascii '':**'' @ [10] @
    ascii ''        '' @ [96, 96, 96, 10] @
    ascii ''        ''"

text \<open>Between the commit logs and the diff.\<close>

definition prompt_before_diff :: pystr where
  "prompt_before_diff =
    [10] @
    ascii ''        '' @ [96, 96, 96, 10] @
    [10] @
    ascii ''        **'' @ [0xCF54, 0xB4DC] @ ascii '' '' @ [0xBCC0, 0xACBD] @ ascii '' '' @
      [0xC0AC, 0xD56D] @ ascii ''(diff):**'' @ [10] @
    ascii ''        '' @ [96, 96, 96] @ ascii ''diff'' @ [10] @
    ascii ''        ''"

text \<open>After the diff.\<close>

definition prompt_end :: pystr where
  "prompt_end =
    [10] @
    ascii ''        '' @ [96, 96, 96, 10] @
    ascii ''    ''"

definition compose_prompt :: "gitinfo \<Rightarrow> pystr" where
  "compose_prompt git_info =
    prompt_intro @ header_title @ prompt_after_title @ header_description @
    prompt_after_description @ header_key_changes @ prompt_after_key_changes @
    branch_name git_info @ prompt_before_logs @
    commit_logs git_info @ prompt_before_diff @
    code_diff git_info @ prompt_end"

text \<open>Everything in the prompt before the first hole.\<close>

definition prompt_fixed_head :: pystr where
  "prompt_fixed_head =
    prompt_intro @ header_title @ prompt_after_title @ header_description @
    prompt_after_description @ header_key_changes @ prompt_after_key_changes"

subsection \<open>The call\<close>

definition OPENAI_API_KEY :: pystr where
  "OPENAI_API_KEY = ascii ''OPENAI_API_KEY''"

definition model_name :: pystr where
  "model_name = ascii ''gpt-4.1-mini''"

text \<open>
  "Error: GEMINI_API_KEY is not set. Please check the .env file."
\<close>

definition missing_credential_message :: pystr where
  "missing_credential_message =
    [0xC624, 0xB958] @ ascii '': GEMINI_API_KEY'' @ [0xAC00] @ ascii '' '' @
    [0xC124, 0xC815, 0xB418, 0xC9C0] @ ascii '' '' @ [0xC54A, 0xC558, 0xC2B5, 0xB2C8, 0xB2E4] @
    ascii ''. .env '' @ [0xD30C, 0xC77C, 0xC744] @ ascii '' '' @
    [0xD655, 0xC778, 0xD574, 0xC8FC, 0xC138, 0xC694] @ ascii ''.''"

text \<open>"An error occurred while calling the Gemini API: " followed by \<^verbatim>\<open>str(e)\<close>.\<close>

definition call_failed_prefix :: pystr where
  "call_failed_prefix =
    ascii ''Gemini API '' @ [0xD638, 0xCD9C] @ ascii '' '' @ [0xC911] @ ascii '' '' @
    [0xC624, 0xB958, 0xAC00] @ ascii '' '' @ [0xBC1C, 0xC0DD, 0xD588, 0xC2B5, 0xB2C8, 0xB2E4] @
    ascii '': ''"

text \<open>\<^verbatim>\<open>not api_key\<close>: true for \<^verbatim>\<open>None\<close> and for the empty string.\<close>

fun falsy :: "pystr option \<Rightarrow> bool" where
  "falsy None = True"
| "falsy (Some s) = (s = [])"

text \<open>The single message of the request: role \<^verbatim>\<open>user\<close>, the prompt as content.\<close>

definition request_messages :: "gitinfo \<Rightarrow> (pystr \<times> pystr) list" where
  "request_messages git_info = [(ascii ''user'', compose_prompt git_info)]"

text \<open>
  The body of the \<^verbatim>\<open>try\<close>: the call, then \<^verbatim>\<open>response.choices[0].message.content\<close>.
  An empty list of choices raises \<^verbatim>\<open>IndexError\<close> at the index.
\<close>

definition index_error :: exc where
  "index_error = Exc OtherException (ascii ''list index out of range'')"

fun first_content :: "pystr option list \<Rightarrow> exc + pystr option" where
  "first_content [] = Inl index_error"
| "first_content (c # cs) = Inr c"

definition call_and_read :: "world \<Rightarrow> pystr \<Rightarrow> gitinfo \<Rightarrow> exc + pystr option" where
  "call_and_read w api_key git_info =
    (case chat_create w api_key model_name (request_messages git_info) of
       Inl e \<Rightarrow> Inl e
     | Inr choices \<Rightarrow> first_content choices)"

text \<open>
  \<^verbatim>\<open>except Exception as e\<close>: an exception of class \<^verbatim>\<open>Exception\<close> becomes the returned
  string; any other leaves the function.
\<close>

fun catch_exception :: "exc + pystr option \<Rightarrow> exc + pystr option" where
  "catch_exception (Inr v) = Inr v"
| "catch_exception (Inl e) =
    (if is_Exception e then Inr (Some (call_failed_prefix @ str_exc e)) else Inl e)"

text \<open>
  The guard returns before anything else is done. The client is built after the guard and
  before the \<^verbatim>\<open>try\<close>: an exception of the constructor, of whatever class, leaves the
  function, and the remote call is made only once the client is built.
\<close>

definition generate_pr_message :: "world \<Rightarrow> gitinfo \<Rightarrow> event list \<times> (exc + pystr option)" where
  "generate_pr_message w git_info =
    (let api_key = getenv w OPENAI_API_KEY in
     if falsy api_key then ([Getenv OPENAI_API_KEY], Inr (Some missing_credential_message))
     else
       (case openai_client w (the api_key) of
          Some e \<Rightarrow> ([Getenv OPENAI_API_KEY], Inl e)
        | None \<Rightarrow>
            ([Getenv OPENAI_API_KEY,
              ChatCompletion (the api_key) model_name (request_messages git_info)],
             catch_exception (call_and_read w (the api_key) git_info))))"


section \<open>The command line\<close>

text \<open>
  The parser has one positional argument, \<^verbatim>\<open>base_branch\<close>, with \<^verbatim>\<open>nargs='?'\<close>,
  \<^verbatim>\<open>type=str\<close> and default \<^verbatim>\<open>'main'\<close>, and the help flag (\<^verbatim>\<open>-h\<close>, \<^verbatim>\<open>--help\<close>) that
  \<^verbatim>\<open>argparse\<close> adds to every parser built without \<^verbatim>\<open>add_help=False\<close>. What follows is
  what \<^verbatim>\<open>parse_args\<close> of CPython 3.11 does for this parser, for every command line.
\<close>

fun begins_with_dash :: "pystr \<Rightarrow> bool" where
  "begins_with_dash [] = False"
| "begins_with_dash (c # cs) = (c = 45)"

text \<open>
  The regular expression \<^verbatim>\<open>\d\<close> on a \<^verbatim>\<open>str\<close>: the decimal digits of Unicode, which come
  in runs of ten. The list holds the first code point of every run.
\<close>

definition digit_runs :: "nat list" where
  "digit_runs =
    [0x0030, 0x0660, 0x06F0, 0x07C0, 0x0966, 0x09E6, 0x0A66, 0x0AE6, 0x0B66, 0x0BE6, 0x0C66,
     0x0CE6, 0x0D66, 0x0DE6, 0x0E50, 0x0ED0, 0x0F20, 0x1040, 0x1090, 0x17E0, 0x1810, 0x1946,
     0x19D0, 0x1A80, 0x1A90, 0x1B50, 0x1BB0, 0x1C40, 0x1C50, 0xA620, 0xA8D0, 0xA900, 0xA9D0,
     0xA9F0, 0xAA50, 0xABF0, 0xFF10, 0x104A0, 0x10D30, 0x11066, 0x110F0, 0x11136, 0x111D0,
     0x112F0, 0x11450, 0x114D0, 0x11650, 0x116C0, 0x11730, 0x118E0, 0x11950, 0x11C50,
     0x11D50, 0x11DA0, 0x16A60, 0x16AC0, 0x16B50, 0x1D7CE, 0x1D7D8, 0x1D7E2, 0x1D7EC,
     0x1D7F6, 0x1E140, 0x1E2F0, 0x1E950, 0x1FBF0]"

definition is_digit :: "nat \<Rightarrow> bool" where
  "is_digit c = list_ex (\<lambda>s. s \<le> c \<and> c < s + 10) digit_runs"

definition digits :: "pystr \<Rightarrow> bool" where
  "digits s = (s \<noteq> [] \<and> list_all is_digit s)"

text \<open>
  \<^verbatim>\<open>_negative_number_matcher\<close>, the pattern \<^verbatim>\<open>^-\d+$|^-\d*\.\d+$\<close> applied with
  \<^verbatim>\<open>match\<close>: a minus sign, then digits, or digits (perhaps none), a full stop and digits;
  \<^verbatim>\<open>$\<close> also matches before one final line feed.
\<close>

definition without_final_newline :: "pystr \<Rightarrow> pystr" where
  "without_final_newline s = (if s \<noteq> [] \<and> last s = 10 then butlast s else s)"

fun negative_number :: "pystr \<Rightarrow> bool" where
  "negative_number [] = False"
| "negative_number (c # cs) =
    (c = 45 \<and>
     (digits (without_final_newline cs) \<or>
      (46 \<in> set (without_final_newline cs) \<and>
       list_all is_digit (takeWhile (\<lambda>x. x \<noteq> 46) (without_final_newline cs)) \<and>
       digits (tl (dropWhile (\<lambda>x. x \<noteq> 46) (without_final_newline cs))))))"

text \<open>
  How one argument is read (\<^verbatim>\<open>_parse_optional\<close>, and \<^verbatim>\<open>consume_optional\<close> for what is
  read as an option):
  \<^item> \<open>Positional\<close>: an argument for the positional;
  \<^item> \<open>Help\<close>: the help flag, which prints the help and exits with status 0;
  \<^item> \<open>Malformed\<close>: the help flag given a value it does not take (\<^verbatim>\<open>--help=x\<close>,
    \<^verbatim>\<open>-h=x\<close>, \<^verbatim>\<open>-h-\<close>), which is an error as soon as it is reached;
  \<^item> \<open>Unknown\<close>: an option string of no option of this parser, reported as an unrecognized
    argument once the whole command line is read.
\<close>

datatype arg_kind = Positional | Help | Malformed | Unknown

text \<open>
  The characters after \<^verbatim>\<open>-h\<close> in one argument are read as further single-letter flags:
  another \<^verbatim>\<open>h\<close> is the help flag again, \<^verbatim>\<open>-\<close> or \<^verbatim>\<open>=\<close> is a value the flag does
  not take, and any other letter ends the reading with the help action already noted.
\<close>

fun short_flags :: "pystr \<Rightarrow> arg_kind" where
  "short_flags [] = Help"
| "short_flags (c # cs) =
    (if c = 45 \<or> c = 61 then Malformed else if c = 104 then short_flags cs else Help)"

text \<open>The part of an argument before its first \<^verbatim>\<open>=\<close>.\<close>

definition before_equals :: "pystr \<Rightarrow> pystr" where
  "before_equals a = takeWhile (\<lambda>c. c \<noteq> 61) a"

definition arg_kind_of :: "pystr \<Rightarrow> arg_kind" where
  "arg_kind_of a =
    (if a = [] then Positional
     else if hd a \<noteq> 45 then Positional
     else if a = ascii ''-h'' \<or> a = ascii ''--help'' then Help
     else if length a = 1 then Positional
     else if 61 \<in> set a \<and> (before_equals a = ascii ''-h'' \<or> before_equals a = ascii ''--help'')
       then Malformed
     else if hd (tl a) = 45 \<and> prefix (before_equals a) (ascii ''--help'')
       then (if 61 \<in> set a then Malformed else Help)
     else if hd (tl a) \<noteq> 45 \<and> take 2 a = ascii ''-h'' then short_flags (drop 2 a)
     else if negative_number a then Positional
     else if 32 \<in> set a then Positional
     else Unknown)"

text \<open>
  The arguments up to the first \<^verbatim>\<open>--\<close> are read one by one; every argument after it is
  an argument for the positional. With no option among them, the positional takes at most one
  argument, the \<^verbatim>\<open>--\<close> next to it is dropped, and whatever is left over is an error.
\<close>

fun positionals :: "pystr list \<Rightarrow> pystr list \<Rightarrow> parse_result" where
  "positionals [] [] = Parsed (ascii ''main'')"
| "positionals [a] [] = Parsed a"
| "positionals [] [d] = Parsed (ascii ''main'')"
| "positionals [] [d, a] = Parsed a"
| "positionals [a] [d] = Parsed a"
| "positionals front rest = UsageError"

text \<open>
  Options are acted on from left to right: the first help flag exits with the help, the first
  malformed one with an error, before anything later is looked at. With neither, an unknown
  option is an error at the end.
\<close>

fun first_exit :: "arg_kind list \<Rightarrow> parse_result option" where
  "first_exit [] = None"
| "first_exit (Help # ks) = Some HelpExit"
| "first_exit (Malformed # ks) = Some UsageError"
| "first_exit (k # ks) = first_exit ks"

definition parse_args :: "pystr list \<Rightarrow> parse_result" where
  "parse_args argv =
    (case first_exit (map arg_kind_of (takeWhile (\<lambda>a. a \<noteq> ascii ''--'') argv)) of
       Some r \<Rightarrow> r
     | None \<Rightarrow>
         if Unknown \<in> set (map arg_kind_of (takeWhile (\<lambda>a. a \<noteq> ascii ''--'') argv))
         then UsageError
         else positionals (takeWhile (\<lambda>a. a \<noteq> ascii ''--'') argv)
                (dropWhile (\<lambda>a. a \<noteq> ascii ''--'') argv))"


section \<open>The driver\<close>

datatype process_end = NormalExit | SystemExit int | Uncaught exc

text \<open>"Base branch: '...'", after a check mark.\<close>

definition banner :: "pystr \<Rightarrow> pystr" where
  "banner base_branch =
    [0x2705] @ ascii '' '' @ [0xAE30, 0xC900] @ ascii '' '' @ [0xBE0C, 0xB79C, 0xCE58] @
    ascii '': '' @ [39] @ base_branch @ [39]"

text \<open>"Collecting Git information..."\<close>

definition collecting_message :: pystr where
  "collecting_message =
    ascii ''Git '' @ [0xC815, 0xBCF4, 0xB97C] @ ascii '' '' @ [0xC218, 0xC9D1] @ ascii '' '' @
    [0xC911, 0xC785, 0xB2C8, 0xB2E4] @ ascii ''...''"

text \<open>"Branch: " and the branch name.\<close>

definition branch_line :: "gitinfo \<Rightarrow> pystr" where
  "branch_line git_info = [0xBE0C, 0xB79C, 0xCE58] @ ascii '': '' @ branch_name git_info"

text \<open>"Number of commits: " and \<^verbatim>\<open>len(git_info['commit_logs'].splitlines())\<close>.\<close>

definition commit_count :: "gitinfo \<Rightarrow> nat" where
  "commit_count git_info = length (splitlines (commit_logs git_info))"

definition commit_count_line :: "gitinfo \<Rightarrow> pystr" where
  "commit_count_line git_info =
    [0xCEE4, 0xBC0B] @ ascii '' '' @ [0xC218] @ ascii '': '' @
    str_nat (commit_count git_info) @ [0xAC1C]"

text \<open>"Generating the PR message through the OPENAI API...", after a line feed.\<close>

definition generating_message :: pystr where
  "generating_message =
    [10] @ ascii ''OPENAI API'' @ [0xB97C] @ ascii '' '' @ [0xD1B5, 0xD574] @ ascii '' PR '' @
    [0xBA54, 0xC2DC, 0xC9C0, 0xB97C] @ ascii '' '' @ [0xC0DD, 0xC131, 0xD569, 0xB2C8, 0xB2E4] @
    ascii ''...''"

text \<open>\<^verbatim>\<open>"="*50\<close>\<close>

definition rule50 :: pystr where
  "rule50 = replicate 50 61"

text \<open>"Generated PR message", between two sparkles.\<close>

definition result_title :: pystr where
  "result_title =
    [0x2728] @ ascii '' '' @ [0xC0DD, 0xC131, 0xB41C] @ ascii '' PR '' @
    [0xBA54, 0xC2DC, 0xC9C0] @ ascii '' '' @ [0x2728]"

definition report :: "pystr option \<Rightarrow> event list" where
  "report pr_message =
    [Print ([10] @ rule50), Print result_title, Print rule50, Print (str_of pr_message),
     Print rule50]"

text \<open>
  The block under \<^verbatim>\<open>__main__\<close> after the arguments are parsed. \<^verbatim>\<open>if git_info:\<close> is false
  for \<^verbatim>\<open>None\<close> and true for the dictionary, which always has three keys.
\<close>

definition driver :: "world \<Rightarrow> pystr \<Rightarrow> event list \<times> process_end" where
  "driver w base_branch =
    (case get_git_info w base_branch of
       (ev1, Inl e) \<Rightarrow>
         ([Print (banner base_branch), Print collecting_message] @ ev1, Uncaught e)
     | (ev1, Inr None) \<Rightarrow>
         ([Print (banner base_branch), Print collecting_message] @ ev1, NormalExit)
     | (ev1, Inr (Some git_info)) \<Rightarrow>
        (case generate_pr_message w git_info of
           (ev2, Inl e) \<Rightarrow>
             ([Print (banner base_branch), Print collecting_message] @ ev1 @
              [Print (branch_line git_info), Print (commit_count_line git_info),
               Print generating_message] @ ev2,
              Uncaught e)
         | (ev2, Inr pr_message) \<Rightarrow>
             ([Print (banner base_branch), Print collecting_message] @ ev1 @
              [Print (branch_line git_info), Print (commit_count_line git_info),
               Print generating_message] @ ev2 @ report pr_message,
              NormalExit)))"

definition main :: "world \<Rightarrow> pystr list \<Rightarrow> event list \<times> process_end" where
  "main w argv =
    (case parse_args argv of
       Parsed base_branch \<Rightarrow> driver w base_branch
     | HelpExit \<Rightarrow> ([PrintHelp], SystemExit 0)
     | UsageError \<Rightarrow> ([PrintUsageError], SystemExit 2))"


section \<open>How one command ends\<close>

text \<open>The command ran and returned 0.\<close>

fun exits_zero :: "exc + completed \<Rightarrow> bool" where
  "exits_zero (Inr (Completed rc out err)) = (rc = 0)"
| "exits_zero (Inl e) = False"

text \<open>The command ran and returned non-zero, or its executable was not found.\<close>

fun exits_nonzero_or_not_found :: "exc + completed \<Rightarrow> bool" where
  "exits_nonzero_or_not_found (Inr (Completed rc out err)) = (rc \<noteq> 0)"
| "exits_nonzero_or_not_found (Inl (Exc c m)) = (c = FileNotFoundError)"

text \<open>
  The Repository Inspector fails: the first of its commands that does not return 0 returns
  non-zero or is not found.
\<close>

definition inspector_fails :: "world \<Rightarrow> pystr \<Rightarrow> bool" where
  "inspector_fails w base_branch =
    (if \<not> exits_zero (subprocess_run w rev_parse_cmd)
     then exits_nonzero_or_not_found (subprocess_run w rev_parse_cmd)
     else if \<not> exits_zero (subprocess_run w (log_cmd base_branch))
     then exits_nonzero_or_not_found (subprocess_run w (log_cmd base_branch))
     else exits_nonzero_or_not_found (subprocess_run w (diff_cmd base_branch)))"


section \<open>The specification's words\<close>

text \<open>
  "The number of newline-separated entries": the pieces between line feeds, and none for the
  empty string (the zero-commits case).
\<close>

fun split_at_newlines :: "pystr \<Rightarrow> pystr \<Rightarrow> pystr list" where
  "split_at_newlines cur [] = [cur]"
| "split_at_newlines cur (c # cs) =
    (if c = 10 then cur # split_at_newlines [] cs else split_at_newlines (cur @ [c]) cs)"

definition newline_separated_entries :: "pystr \<Rightarrow> pystr list" where
  "newline_separated_entries s = (if s = [] then [] else split_at_newlines [] s)"


text \<open>
  "A recognizable missing-credential marker": the words "API_KEY is not set" of the message
  returned when there is no credential.
\<close>

definition missing_credential_marker :: pystr where
  "missing_credential_marker =
    ascii ''API_KEY'' @ [0xAC00] @ ascii '' '' @ [0xC124, 0xC815, 0xB418, 0xC9C0] @ ascii '' '' @
    [0xC54A, 0xC558, 0xC2B5, 0xB2C8, 0xB2E4]"

text \<open>
  "A recognizable call-failed marker": the words "an error occurred while calling the API" of
  the message returned when the call fails.
\<close>

definition call_failed_marker :: pystr where
  "call_failed_marker =
    ascii ''API '' @ [0xD638, 0xCD9C] @ ascii '' '' @ [0xC911] @ ascii '' '' @
    [0xC624, 0xB958, 0xAC00] @ ascii '' '' @ [0xBC1C, 0xC0DD, 0xD588, 0xC2B5, 0xB2C8, 0xB2E4]"


section \<open>Sample worlds\<close>

text \<open>
  A world given by the results of the three git commands for one base branch, the value of
  the credential, and the reply of the completion service. Any other command is not found,
  and the client is always built.
\<close>

definition sample_world ::
  "exc + completed \<Rightarrow> exc + completed \<Rightarrow> exc + completed \<Rightarrow> pystr \<Rightarrow> pystr option \<Rightarrow>
   exc + pystr option list \<Rightarrow> world" where
  "sample_world r1 r2 r3 base key reply =
    \<lparr>subprocess_run =
       (\<lambda>argv. if argv = rev_parse_cmd then r1
               else if argv = log_cmd base then r2
               else if argv = diff_cmd base then r3
               else Inl (Exc FileNotFoundError [])),
     getenv = (\<lambda>name. if name = OPENAI_API_KEY then key else None),
     openai_client = (\<lambda>k. None),
     chat_create = (\<lambda>k m ms. reply)\<rparr>"

text \<open>A successful command with the given stdout.\<close>

definition ok :: "pystr \<Rightarrow> exc + completed" where
  "ok out = Inr (Completed 0 out [])"


text \<open>The fixed example of the specification.\<close>

definition sample_git_info :: gitinfo where
  "sample_git_info =
    \<lparr>branch_name = ascii ''feature/x'', commit_logs = ascii ''fix bug'',
     code_diff = ascii ''--- a'' @ [10] @ ascii ''+++ b'' @ [10]\<rparr>"

text \<open>
  A repository on branch \<^verbatim>\<open>feature/x\<close>, one commit ahead of \<^verbatim>\<open>main\<close>; a credential is
  set and the service answers.
\<close>

definition healthy_world :: world where
  "healthy_world =
    sample_world (ok (ascii ''feature/x'' @ [10])) (ok (ascii ''fix bug''))
      (ok (ascii ''--- a'' @ [10] @ ascii ''+++ b'' @ [10])) (ascii ''main'')
      (Some (ascii ''sk-test'')) (Inr [Some (ascii ''### PR'')])"

text \<open>The same repository asked for a base branch that does not exist: the log exits 128.\<close>

definition unknown_base_world :: world where
  "unknown_base_world =
    sample_world (ok (ascii ''feature/x'' @ [10]))
      (Inr (Completed 128 [] (ascii ''fatal: bad revision'')))
      (ok []) (ascii ''nope'') (Some (ascii ''sk-test'')) (Inr [Some (ascii ''### PR'')])"

text \<open>No git executable on the path.\<close>

definition no_git_world :: world where
  "no_git_world =
    sample_world (Inl (Exc FileNotFoundError (ascii ''git''))) (ok []) (ok []) (ascii ''main'')
      (Some (ascii ''sk-test'')) (Inr [Some (ascii ''### PR'')])"

text \<open>The service cannot be reached: the call raises.\<close>

definition unreachable_world :: world where
  "unreachable_world =
    sample_world (ok (ascii ''feature/x'' @ [10])) (ok (ascii ''fix bug''))
      (ok (ascii ''--- a'' @ [10] @ ascii ''+++ b'' @ [10])) (ascii ''main'')
      (Some (ascii ''sk-test'')) (Inl (Exc OtherException (ascii ''Connection error.'')))"

text \<open>The credential is not in the environment.\<close>

definition unset_key_world :: world where
  "unset_key_world =
    sample_world (ok (ascii ''feature/x'' @ [10])) (ok (ascii ''fix bug''))
      (ok (ascii ''--- a'' @ [10] @ ascii ''+++ b'' @ [10])) (ascii ''main'')
      None (Inr [Some (ascii ''### PR'')])"

text \<open>The credential is in the environment and empty.\<close>

definition empty_key_world :: world where
  "empty_key_world =
    sample_world (ok (ascii ''feature/x'' @ [10])) (ok (ascii ''fix bug''))
      (ok (ascii ''--- a'' @ [10] @ ascii ''+++ b'' @ [10])) (ascii ''main'')
      (Some []) (Inr [Some (ascii ''### PR'')])"

text \<open>
  One commit ahead of \<^verbatim>\<open>main\<close>, and the subject of that commit holds a form feed (U+000C)
  between \<^verbatim>\<open>a\<close> and \<^verbatim>\<open>b\<close>.
\<close>

definition form_feed_world :: world where
  "form_feed_world =
    sample_world (ok (ascii ''feature/x'' @ [10])) (ok (ascii ''a'' @ [0x0C] @ ascii ''b''))
      (ok (ascii ''--- a'' @ [10] @ ascii ''+++ b'' @ [10])) (ascii ''main'')
      None (Inr [])"

text \<open>
  The checked-out branch is named \<^verbatim>\<open>wip\<close> followed by a no-break space (U+00A0), a name
  git accepts; \<^verbatim>\<open>rev-parse\<close> prints the name and a line feed.
\<close>

definition nbsp_branch_name :: pystr where
  "nbsp_branch_name = ascii ''wip'' @ [0xA0]"

definition nbsp_branch_world :: world where
  "nbsp_branch_world =
    sample_world (ok (nbsp_branch_name @ [10])) (ok (ascii ''fix bug''))
      (ok (ascii ''--- a'' @ [10] @ ascii ''+++ b'' @ [10])) (ascii ''main'')
      None (Inr [])"

text \<open>What the inspector returns in that repository.\<close>

definition form_feed_git_info :: gitinfo where
  "form_feed_git_info =
    \<lparr>branch_name = ascii ''feature/x'', commit_logs = ascii ''a'' @ [0x0C] @ ascii ''b'',
     code_diff = ascii ''--- a'' @ [10] @ ascii ''+++ b'' @ [10]\<rparr>"



section \<open>Facts about the sample worlds and the inspector\<close>

lemma cmds_distinct:
  "log_cmd b \<noteq> rev_parse_cmd" "diff_cmd b \<noteq> rev_parse_cmd" "diff_cmd b \<noteq> log_cmd b'"
  "rev_parse_cmd \<noteq> log_cmd b" "rev_parse_cmd \<noteq> diff_cmd b" "log_cmd b' \<noteq> diff_cmd b"
  by (simp_all add: log_cmd_def rev_parse_cmd_def diff_cmd_def)

lemma sample_world_run [simp]:
  "subprocess_run (sample_world r1 r2 r3 b k rep) rev_parse_cmd = r1"
  "subprocess_run (sample_world r1 r2 r3 b k rep) (log_cmd b) = r2"
  "subprocess_run (sample_world r1 r2 r3 b k rep) (diff_cmd b) = r3"
  by (simp_all add: sample_world_def cmds_distinct)

lemma sample_world_fields [simp]:
  "getenv (sample_world r1 r2 r3 b k rep) OPENAI_API_KEY = k"
  "chat_create (sample_world r1 r2 r3 b k rep) key m ms = rep"
  "openai_client (sample_world r1 r2 r3 b k rep) key = None"
  by (simp_all add: sample_world_def)

lemma run_checked_ok [simp]: "subprocess_run w argv = ok out \<Longrightarrow> run_checked w argv = Inr out"
  by (simp add: run_checked_def ok_def)

lemma handle_git_failure_not_Some [simp]: "snd (handle_git_failure f) \<noteq> Inr (Some gi)"
  by (cases f rule: handle_git_failure.cases) simp_all

lemma handle_git_failure_None:
  "snd (handle_git_failure f) = Inr None \<Longrightarrow>
   \<exists>msg. fst (handle_git_failure f) = [Print msg] \<and>
     (msg = git_missing_message \<or> (\<exists>err. msg = git_error_prefix @ err))"
  by (cases f rule: handle_git_failure.cases) simp_all

lemma get_git_info_None:
  assumes "snd (get_git_info w b) = Inr None"
  shows "\<exists>cmds msg. fst (get_git_info w b) = map Subprocess cmds @ [Print msg] \<and>
     (msg = git_missing_message \<or> (\<exists>err. msg = git_error_prefix @ err))"
proof (cases "run_checked w rev_parse_cmd")
  case (Inl f)
  with assms have "snd (handle_git_failure f) = Inr None" by (simp add: get_git_info_def)
  from handle_git_failure_None[OF this] obtain msg where
    m: "fst (handle_git_failure f) = [Print msg]" "msg = git_missing_message \<or> (\<exists>err. msg = git_error_prefix @ err)" by blast
  have "fst (get_git_info w b) = map Subprocess [rev_parse_cmd] @ [Print msg]"
    using Inl m by (simp add: get_git_info_def)
  with m show ?thesis by blast
next
  case (Inr out1)
  show ?thesis
  proof (cases "run_checked w (log_cmd b)")
    case (Inl f)
    with assms Inr have "snd (handle_git_failure f) = Inr None" by (simp add: get_git_info_def)
    from handle_git_failure_None[OF this] obtain msg where
      m: "fst (handle_git_failure f) = [Print msg]" "msg = git_missing_message \<or> (\<exists>err. msg = git_error_prefix @ err)" by blast
    have "fst (get_git_info w b) = map Subprocess [rev_parse_cmd, log_cmd b] @ [Print msg]"
      using Inl Inr m by (simp add: get_git_info_def)
    with m show ?thesis by blast
  next
    case out2: (Inr out2)
    show ?thesis
    proof (cases "run_checked w (diff_cmd b)")
      case (Inl f)
      with assms Inr out2 have "snd (handle_git_failure f) = Inr None" by (simp add: get_git_info_def)
      from handle_git_failure_None[OF this] obtain msg where
        m: "fst (handle_git_failure f) = [Print msg]" "msg = git_missing_message \<or> (\<exists>err. msg = git_error_prefix @ err)" by blast
      have "fst (get_git_info w b) = map Subprocess [rev_parse_cmd, log_cmd b, diff_cmd b] @ [Print msg]"
        using Inl Inr out2 m by (simp add: get_git_info_def)
      with m show ?thesis by blast
    next
      case out3: (Inr out3)
      with assms Inr out2 show ?thesis by (simp add: get_git_info_def)
    qed
  qed
qed

lemma driver_None:
  "snd (get_git_info w b) = Inr None \<Longrightarrow>
   driver w b = ([Print (banner b), Print collecting_message] @ fst (get_git_info w b), NormalExit)"
  by (cases "get_git_info w b") (simp add: driver_def)

subsection \<open>The command line\<close>

lemma parse_args_Nil: "parse_args [] = Parsed (ascii ''main'')"
  by (simp add: parse_args_def)

lemma dashdash_begins_with_dash: "begins_with_dash (ascii ''--'')"
  by (simp add: ascii_def)

lemma plain_is_positional:
  assumes "\<not> begins_with_dash a"
  shows "arg_kind_of a = Positional \<and> a \<noteq> ascii ''--''"
proof
  show "arg_kind_of a = Positional"
    using assms by (cases a) (simp_all add: arg_kind_of_def)
  show "a \<noteq> ascii ''--''"
    using assms dashdash_begins_with_dash by auto
qed

lemma parse_args_positional:
  "arg_kind_of a = Positional \<Longrightarrow> a \<noteq> ascii ''--'' \<Longrightarrow> parse_args [a] = Parsed a"
  by (simp add: parse_args_def)

lemma parse_args_plain: "\<not> begins_with_dash a \<Longrightarrow> parse_args [a] = Parsed a"
  using plain_is_positional[of a] parse_args_positional[of a] by simp

lemma first_exit_HelpExit: "first_exit ks = Some HelpExit \<Longrightarrow> Help \<in> set ks"
  by (induction ks rule: first_exit.induct) simp_all

lemma first_exit_cases: "first_exit ks = Some r \<Longrightarrow> r = HelpExit \<or> r = UsageError"
  by (induction ks rule: first_exit.induct) auto

lemma positionals_not_HelpExit: "positionals front rest \<noteq> HelpExit"
  by (cases "(front, rest)" rule: positionals.cases) simp_all

lemma positionals_Parsed:
  "positionals front rest = Parsed b \<Longrightarrow>
   (front = [] \<and> rest = [] \<and> b = ascii ''main'') \<or> (front = [b] \<and> rest = []) \<or>
   (\<exists>d. front = [] \<and> rest = [d] \<and> b = ascii ''main'') \<or> (\<exists>d. front = [] \<and> rest = [d, b]) \<or>
   (\<exists>d. front = [b] \<and> rest = [d])"
  by (cases "(front, rest)" rule: positionals.cases) auto

lemma dropWhile_head: "dropWhile P xs = d # ds \<Longrightarrow> \<not> P d"
  using hd_dropWhile[of P xs] by auto

text \<open>
  A command line that is accepted holds at most one argument for the positional, and beside
  it at most the separator \<^verbatim>\<open>--\<close>.
\<close>

lemma parse_args_Parsed:
  assumes "parse_args argv = Parsed b"
  shows "((argv = [] \<or> argv = [ascii ''--'']) \<and> b = ascii ''main'') \<or> argv = [b] \<or>
         argv = [ascii ''--'', b] \<or> argv = [b, ascii ''--'']"
proof -
  define t where "t = takeWhile (\<lambda>a. a \<noteq> ascii ''--'') argv"
  define r where "r = dropWhile (\<lambda>a. a \<noteq> ascii ''--'') argv"
  have split: "argv = t @ r" by (simp add: t_def r_def)
  have p: "positionals t r = Parsed b"
    using assms first_exit_cases[of "map arg_kind_of t"]
    by (auto simp add: parse_args_def t_def r_def split: option.splits if_splits)
  have d: "d = ascii ''--''" if "r = d # ds" for d ds
    using dropWhile_head[of "\<lambda>a. a \<noteq> ascii ''--''" argv d ds] that by (simp add: r_def)
  from positionals_Parsed[OF p] show ?thesis
  proof (elim disjE exE conjE)
    assume "t = []" "r = []" "b = ascii ''main''"
    then show ?thesis using split by simp
  next
    assume "t = [b]" "r = []"
    then show ?thesis using split by simp
  next
    fix x assume h: "t = []" "r = [x]" "b = ascii ''main''"
    then show ?thesis using split d[OF h(2)] by simp
  next
    fix x assume h: "t = []" "r = [x, b]"
    then show ?thesis using split d[OF h(2)] by simp
  next
    fix x assume h: "t = [b]" "r = [x]"
    then show ?thesis using split d[OF h(2)] by simp
  qed
qed

text \<open>The arguments read as the help flag are the forms of \<^verbatim>\<open>-h\<close> and \<^verbatim>\<open>--help\<close>.\<close>

lemma prefixes_of_help:
  assumes "prefix a (ascii ''--help'')"
  shows "a = [] \<or> a = ascii ''-'' \<or> a = ascii ''--'' \<or> a = ascii ''--h'' \<or> a = ascii ''--he'' \<or>
         a = ascii ''--hel'' \<or> a = ascii ''--help''"
proof -
  have "a \<in> set (prefixes (ascii ''--help''))" using assms by (simp add: in_set_prefixes)
  then show ?thesis by (simp add: ascii_def)
qed

lemma Help_form:
  assumes "arg_kind_of a = Help" "a \<noteq> ascii ''--''"
  shows "prefix (ascii ''-h'') a \<or> a = ascii ''--h'' \<or> a = ascii ''--he'' \<or>
         a = ascii ''--hel'' \<or> a = ascii ''--help''"
proof -
  have e: "before_equals a = a" if "61 \<notin> set a"
    using that by (auto simp add: before_equals_def takeWhile_eq_all_conv)
  have t: "prefix (ascii ''-h'') a" if "take 2 a = ascii ''-h''"
    using that by (metis take_is_prefix)
  have l: "a \<noteq> [] \<and> a \<noteq> ascii ''-''" if "a \<noteq> []" "length a \<noteq> 1"
    using that by (auto simp add: ascii_def)
  have p: "a = ascii ''--h'' \<or> a = ascii ''--he'' \<or> a = ascii ''--hel'' \<or> a = ascii ''--help''"
    if "prefix a (ascii ''--help'')" "a \<noteq> []" "length a \<noteq> 1"
    using prefixes_of_help[OF that(1)] l[OF that(2,3)] assms(2) by blast
  show ?thesis
    using assms(1) e t p
    by (auto simp add: arg_kind_of_def split: if_splits)
qed

lemma parse_args_HelpExit:
  assumes "parse_args argv = HelpExit"
  shows "list_ex (\<lambda>a. prefix (ascii ''-h'') a \<or> a = ascii ''--h'' \<or> a = ascii ''--he'' \<or>
           a = ascii ''--hel'' \<or> a = ascii ''--help'') argv"
proof -
  let ?P = "\<lambda>a. a \<noteq> ascii ''--''"
  have "first_exit (map arg_kind_of (takeWhile ?P argv)) = Some HelpExit"
    using assms positionals_not_HelpExit
    by (auto simp add: parse_args_def split: option.splits if_splits)
  from first_exit_HelpExit[OF this] obtain a where
    a: "a \<in> set (takeWhile ?P argv)" "arg_kind_of a = Help" by auto
  have m: "a \<in> set argv" "a \<noteq> ascii ''--''" using set_takeWhileD[OF a(1)] by simp_all
  from Help_form[OF a(2) m(2)] m(1) show ?thesis unfolding list_ex_iff by blast
qed

text \<open>A negative number is an argument for the positional.\<close>

lemma not_digit: "\<not> is_digit 45" "\<not> is_digit 104" "\<not> is_digit 61" "\<not> is_digit 46" "\<not> is_digit 10"
  by (simp_all add: is_digit_def digit_runs_def)

lemma negative_number_positional:
  assumes "negative_number a"
  shows "arg_kind_of a = Positional"
proof -
  obtain cs where a: "a = 45 # cs" using assms by (cases a) auto
  define r where "r = without_final_newline cs"
  have rn: "digits r \<or> (46 \<in> set r \<and> list_all is_digit (takeWhile (\<lambda>x. x \<noteq> 46) r) \<and>
       digits (tl (dropWhile (\<lambda>x. x \<noteq> 46) r)))"
    using assms a by (simp add: r_def)
  have els: "\<forall>x \<in> set r. is_digit x \<or> x = 46"
  proof (cases "digits r")
    case True then show ?thesis by (simp add: digits_def list_all_iff)
  next
    case False
    with rn have h: "46 \<in> set r" "list_all is_digit (takeWhile (\<lambda>x. x \<noteq> 46) r)"
      "digits (tl (dropWhile (\<lambda>x. x \<noteq> 46) r))" by auto
    have dn: "dropWhile (\<lambda>x. x \<noteq> 46) r \<noteq> []" using h(1) by (simp add: dropWhile_eq_Nil_conv)
    then obtain ds where d: "dropWhile (\<lambda>x. x \<noteq> 46) r = 46 # ds"
      using hd_dropWhile[OF dn] by (cases "dropWhile (\<lambda>x. x \<noteq> 46) r") auto
    have "r = takeWhile (\<lambda>x. x \<noteq> 46) r @ 46 # ds" using d by (metis takeWhile_dropWhile_id)
    then have "set r = set (takeWhile (\<lambda>x. x \<noteq> 46) r) \<union> {46} \<union> set ds"
      by (metis set_append list.simps(15) Un_insert_right Un_assoc sup_bot.right_neutral insert_is_Un)
    then show ?thesis using h(2,3) d by (auto simp add: digits_def list_all_iff)
  qed
  have rne: "r \<noteq> []" using rn by (auto simp add: digits_def)
  have sub: "set cs \<subseteq> set r \<union> {10}"
    unfolding r_def without_final_newline_def
    by (cases cs rule: rev_cases) auto
  have hdr: "hd cs = hd r" "cs \<noteq> []"
    using rne unfolding r_def without_final_newline_def
    by (cases cs rule: rev_cases; auto simp add: hd_append split: if_splits)+
  have hd_ok: "hd cs \<noteq> 45" "hd cs \<noteq> 104"
    using els rne hdr(1) not_digit by (metis hd_in_set numeral_eq_iff semiring_norm(87,88,89,90))+
  have no_eq: "61 \<notin> set a"
  proof
    assume "61 \<in> set a"
    then have "61 \<in> set cs" using a by simp
    then have "61 \<in> set r \<union> {10}" using sub by blast
    then have "61 \<in> set r" by simp
    then have "is_digit 61 \<or> (61::nat) = 46" using els by blast
    then show False using not_digit by simp
  qed
  obtain c cs' where cs: "cs = c # cs'" using hdr(2) by (cases cs) auto
  have c: "c \<noteq> 45" "c \<noteq> 104" using hd_ok cs by simp_all
  have nh: "a \<noteq> ascii ''-h''" "a \<noteq> ascii ''--help''" "take 2 a \<noteq> ascii ''-h''"
    using a cs c by (simp_all add: ascii_def)
  show ?thesis
    using assms nh no_eq a cs c by (simp add: arg_kind_of_def)
qed

text \<open>A command line that is not accepted starts no command and ends with an exit status.\<close>

lemma main_not_Parsed:
  "parse_args argv = HelpExit \<Longrightarrow> main w argv = ([PrintHelp], SystemExit 0)"
  "parse_args argv = UsageError \<Longrightarrow> main w argv = ([PrintUsageError], SystemExit 2)"
  by (simp_all add: main_def)

lemma main_Parsed: "parse_args argv = Parsed b \<Longrightarrow> main w argv = driver w b"
  by (simp add: main_def)

lemma run_checked_Inr_iff: "(\<exists>out. run_checked w argv = Inr out) = exits_zero (subprocess_run w argv)"
  by (cases "subprocess_run w argv" rule: exits_zero.cases) (simp_all add: run_checked_def)

lemma run_checked_Inl_handled:
  "run_checked w argv = Inl f \<Longrightarrow>
   (snd (handle_git_failure f) = Inr None) = exits_nonzero_or_not_found (subprocess_run w argv)"
  by (cases "subprocess_run w argv" rule: exits_nonzero_or_not_found.cases; cases f rule: handle_git_failure.cases)
     (auto simp add: run_checked_def split: if_splits)

lemma run_checked_Inl_not_zero: "run_checked w argv = Inl f \<Longrightarrow> \<not> exits_zero (subprocess_run w argv)"
  using run_checked_Inr_iff[of w argv] by auto

lemma run_checked_Inr_zero: "run_checked w argv = Inr out \<Longrightarrow> exits_zero (subprocess_run w argv)"
  using run_checked_Inr_iff[of w argv] by auto

lemma exits_zero_not_fail: "exits_zero r \<Longrightarrow> \<not> exits_nonzero_or_not_found r"
  by (cases r rule: exits_zero.cases) simp_all

lemma inspector_fails_iff: "inspector_fails w b = (snd (get_git_info w b) = Inr None)"
proof (cases "run_checked w rev_parse_cmd")
  case (Inl f)
  then show ?thesis
    using run_checked_Inl_handled[OF Inl] run_checked_Inl_not_zero[OF Inl]
    by (simp add: inspector_fails_def get_git_info_def)
next
  case r1: (Inr out1)
  note z1 = run_checked_Inr_zero[OF r1]
  show ?thesis
  proof (cases "run_checked w (log_cmd b)")
    case (Inl f)
    then show ?thesis
      using run_checked_Inl_handled[OF Inl] run_checked_Inl_not_zero[OF Inl] r1 z1
      by (simp add: inspector_fails_def get_git_info_def)
  next
    case r2: (Inr out2)
    note z2 = run_checked_Inr_zero[OF r2]
    show ?thesis
    proof (cases "run_checked w (diff_cmd b)")
      case (Inl f)
      then show ?thesis
        using run_checked_Inl_handled[OF Inl] r1 z1 r2 z2
        by (simp add: inspector_fails_def get_git_info_def)
    next
      case r3: (Inr out3)
      then show ?thesis
        using exits_zero_not_fail[OF run_checked_Inr_zero[OF r3]] r1 z1 r2 z2
        by (simp add: inspector_fails_def get_git_info_def)
    qed
  qed
qed

lemma remote_map_Subprocess [simp]: "\<not> list_ex is_remote_call (map Subprocess cmds)"
  by (induction cmds) simp_all

text \<open>Without a git executable the first command is not found and the run stops there.\<close>

lemma no_git_run:
  "main no_git_world [] =
     ([Print (banner (ascii ''main'')), Print collecting_message, Subprocess rev_parse_cmd,
       Print git_missing_message], NormalExit)"
proof -
  have g: "get_git_info no_git_world (ascii ''main'') =
      ([Subprocess rev_parse_cmd, Print git_missing_message], Inr None)"
    by (simp add: get_git_info_def no_git_world_def run_checked_def)
  have "main no_git_world [] = driver no_git_world (ascii ''main'')"
    by (simp add: main_def parse_args_Nil)
  then show ?thesis using driver_None[of no_git_world "ascii ''main''"] g by simp
qed

subsection \<open>The commands the inspector invokes\<close>

lemma commands_append [simp]: "commands (xs @ ys) = commands xs @ commands ys"
  by (induction xs rule: commands.induct) simp_all

lemma commands_handle_git_failure [simp]: "commands (fst (handle_git_failure f)) = []"
  by (cases f rule: handle_git_failure.cases) simp_all

lemma get_git_info_commands:
  "commands (fst (get_git_info w b)) =
    (if \<not> exits_zero (subprocess_run w rev_parse_cmd) then [rev_parse_cmd]
     else if \<not> exits_zero (subprocess_run w (log_cmd b)) then [rev_parse_cmd, log_cmd b]
     else [rev_parse_cmd, log_cmd b, diff_cmd b])"
proof (cases "run_checked w rev_parse_cmd")
  case (Inl f)
  then show ?thesis using run_checked_Inl_not_zero[OF Inl] by (simp add: get_git_info_def)
next
  case r1: (Inr out1)
  note z1 = run_checked_Inr_zero[OF r1]
  show ?thesis
  proof (cases "run_checked w (log_cmd b)")
    case (Inl f)
    then show ?thesis using run_checked_Inl_not_zero[OF Inl] r1 z1 by (simp add: get_git_info_def)
  next
    case r2: (Inr out2)
    note z2 = run_checked_Inr_zero[OF r2]
    show ?thesis using r1 z1 r2 z2
      by (cases "run_checked w (diff_cmd b)") (simp_all add: get_git_info_def)
  qed
qed

lemma get_git_info_Some_zero:
  assumes "snd (get_git_info w b) = Inr (Some gi)"
  shows "exits_zero (subprocess_run w rev_parse_cmd) \<and> exits_zero (subprocess_run w (log_cmd b))
    \<and> exits_zero (subprocess_run w (diff_cmd b))"
proof (cases "run_checked w rev_parse_cmd")
  case (Inl f)
  with assms show ?thesis by (simp add: get_git_info_def)
next
  case r1: (Inr out1)
  show ?thesis
  proof (cases "run_checked w (log_cmd b)")
    case (Inl f)
    with assms r1 show ?thesis by (simp add: get_git_info_def)
  next
    case r2: (Inr out2)
    show ?thesis
    proof (cases "run_checked w (diff_cmd b)")
      case (Inl f)
      with assms r1 r2 show ?thesis by (simp add: get_git_info_def)
    next
      case r3: (Inr out3)
      show ?thesis using run_checked_Inr_zero[OF r1] run_checked_Inr_zero[OF r2] run_checked_Inr_zero[OF r3]
        by simp
    qed
  qed
qed

lemma healthy_get_git_info:
  "get_git_info healthy_world (ascii ''main'') =
    ([Subprocess rev_parse_cmd, Subprocess (log_cmd (ascii ''main'')),
      Subprocess (diff_cmd (ascii ''main''))], Inr (Some sample_git_info))"
  by (simp add: get_git_info_def healthy_world_def sample_git_info_def strip_def lstrip_def
      rstrip_def isspace_def whitespace_def ascii_def)

lemma unknown_base_get_git_info:
  "get_git_info unknown_base_world (ascii ''nope'') =
      ([Subprocess rev_parse_cmd, Subprocess (log_cmd (ascii ''nope'')),
        Print (git_error_prefix @ ascii ''fatal: bad revision'')], Inr None)"
  by (simp add: get_git_info_def unknown_base_world_def run_checked_def ok_def)

lemma commands_generate [simp]: "commands (fst (generate_pr_message w gi)) = []"
  by (simp add: generate_pr_message_def Let_def split: option.splits)

lemma commands_report [simp]: "commands (report m) = []"
  by (simp add: report_def)

lemma driver_commands: "commands (fst (driver w b)) = commands (fst (get_git_info w b))"
proof (cases "get_git_info w b")
  case (Pair ev1 r1)
  show ?thesis
  proof (cases r1)
    case (Inl e)
    with Pair show ?thesis by (simp add: driver_def)
  next
    case (Inr v)
    show ?thesis
    proof (cases v)
      case None
      with Pair Inr show ?thesis by (simp add: driver_def)
    next
      case (Some gi)
      obtain ev2 r2 where g: "generate_pr_message w gi = (ev2, r2)"
        by (cases "generate_pr_message w gi")
      have c: "commands ev2 = []" using commands_generate[of w gi] g by simp
      show ?thesis using Pair Inr Some g c by (cases r2) (simp_all add: driver_def)
    qed
  qed
qed

subsection \<open>The fixed messages\<close>

lemma missing_message_split:
  "missing_credential_message =
      ([0xC624, 0xB958] @ ascii '': GEMINI_'') @ missing_credential_marker @
      (ascii ''. .env '' @ [0xD30C, 0xC77C, 0xC744] @ ascii '' '' @
        [0xD655, 0xC778, 0xD574, 0xC8FC, 0xC138, 0xC694] @ ascii ''.'')"
  by (simp add: missing_credential_message_def missing_credential_marker_def ascii_def)

lemma missing_marker_in_message: "sublist missing_credential_marker missing_credential_message"
  by (subst missing_message_split) (rule sublist_appendI)

lemma call_failed_split:
  "call_failed_prefix @ m = ascii ''Gemini '' @ call_failed_marker @ (ascii '': '' @ m)"
  by (simp add: call_failed_prefix_def call_failed_marker_def ascii_def)

lemma call_failed_marker_in_text: "sublist call_failed_marker (call_failed_prefix @ m)"
  by (subst call_failed_split) (rule sublist_appendI)

lemma gemini_split:
  "missing_credential_message =
      ([0xC624, 0xB958] @ ascii '': '') @ ascii ''GEMINI_API_KEY'' @
      ([0xAC00] @ ascii '' '' @ [0xC124, 0xC815, 0xB418, 0xC9C0] @ ascii '' '' @
        [0xC54A, 0xC558, 0xC2B5, 0xB2C8, 0xB2E4] @
       ascii ''. .env '' @ [0xD30C, 0xC77C, 0xC744] @ ascii '' '' @
        [0xD655, 0xC778, 0xD574, 0xC8FC, 0xC138, 0xC694] @ ascii ''.'')"
  by (simp add: missing_credential_message_def ascii_def)

lemma gemini_in_message: "sublist (ascii ''GEMINI_API_KEY'') missing_credential_message"
  by (subst gemini_split) (rule sublist_appendI)

lemma no_O_in_message: "79 \<notin> set missing_credential_message"
  by (simp add: missing_credential_message_def ascii_def)

lemma no_openai_in_message: "\<not> sublist (ascii ''OPENAI'') missing_credential_message"
proof
  assume "sublist (ascii ''OPENAI'') missing_credential_message"
  then have "set (ascii ''OPENAI'') \<subseteq> set missing_credential_message"
    by (rule set_mono_sublist)
  moreover have "79 \<in> set (ascii ''OPENAI'')" by (simp add: ascii_def)
  ultimately show False using no_O_in_message by blast
qed

lemma gemini_prefix: "prefix (ascii ''Gemini API'') call_failed_prefix"
  by (simp add: call_failed_prefix_def ascii_def)

subsection \<open>The two paths of \<^verbatim>\<open>generate_pr_message\<close>\<close>

lemma generate_falsy:
  "falsy (getenv w OPENAI_API_KEY) \<Longrightarrow>
   generate_pr_message w gi = ([Getenv OPENAI_API_KEY], Inr (Some missing_credential_message))"
  by (simp add: generate_pr_message_def Let_def)

lemma generate_truthy:
  "\<not> falsy (getenv w OPENAI_API_KEY) \<Longrightarrow> openai_client w (the (getenv w OPENAI_API_KEY)) = None \<Longrightarrow>
   generate_pr_message w gi =
     ([Getenv OPENAI_API_KEY,
       ChatCompletion (the (getenv w OPENAI_API_KEY)) model_name (request_messages gi)],
      catch_exception (call_and_read w (the (getenv w OPENAI_API_KEY)) gi))"
  by (simp add: generate_pr_message_def Let_def)

text \<open>An exception of the constructor leaves the function, and no remote call is made.\<close>

lemma generate_constructor_raises:
  "\<not> falsy (getenv w OPENAI_API_KEY) \<Longrightarrow>
   openai_client w (the (getenv w OPENAI_API_KEY)) = Some e \<Longrightarrow>
   generate_pr_message w gi = ([Getenv OPENAI_API_KEY], Inl e)"
  by (simp add: generate_pr_message_def Let_def)

lemma driver_Some_Inr:
  "get_git_info w b = (ev1, Inr (Some gi)) \<Longrightarrow> generate_pr_message w gi = (ev2, Inr m) \<Longrightarrow>
   driver w b =
     ([Print (banner b), Print collecting_message] @ ev1 @
      [Print (branch_line gi), Print (commit_count_line gi), Print generating_message] @ ev2 @
      report m, NormalExit)"
  by (simp add: driver_def)

lemma printed_append [simp]: "printed (xs @ ys) = printed xs @ printed ys"
  by (induction xs rule: printed.induct) simp_all

lemma call_and_read_raises:
  "chat_create w k model_name (request_messages gi) = Inl e \<Longrightarrow> call_and_read w k gi = Inl e"
  by (simp add: call_and_read_def)

lemma call_and_read_no_choices:
  "chat_create w k model_name (request_messages gi) = Inr [] \<Longrightarrow>
   call_and_read w k gi = Inl index_error"
  by (simp add: call_and_read_def)

lemma unset_key_get_git_info:
  "get_git_info unset_key_world (ascii ''main'') =
    ([Subprocess rev_parse_cmd, Subprocess (log_cmd (ascii ''main'')),
      Subprocess (diff_cmd (ascii ''main''))], Inr (Some sample_git_info))"
  by (simp add: get_git_info_def unset_key_world_def sample_git_info_def strip_def lstrip_def
      rstrip_def isspace_def whitespace_def ascii_def)

subsection \<open>The prompt\<close>

lemma compose_prompt_parts:
  "compose_prompt gi =
     prompt_fixed_head @ branch_name gi @ prompt_before_logs @ commit_logs gi @
     prompt_before_diff @ code_diff gi @ prompt_end"
  by (simp add: compose_prompt_def prompt_fixed_head_def)

lemma branch_in_prompt: "sublist (branch_name gi) (compose_prompt gi)"
  by (subst compose_prompt_parts) (rule sublist_appendI)

lemma logs_in_prompt: "sublist (commit_logs gi) (compose_prompt gi)"
proof -
  have "compose_prompt gi =
      (prompt_fixed_head @ branch_name gi @ prompt_before_logs) @ commit_logs gi @
      (prompt_before_diff @ code_diff gi @ prompt_end)"
    by (simp add: compose_prompt_parts)
  then show ?thesis by (simp only: sublist_appendI)
qed

lemma diff_in_prompt: "sublist (code_diff gi) (compose_prompt gi)"
proof -
  have "compose_prompt gi =
      (prompt_fixed_head @ branch_name gi @ prompt_before_logs @ commit_logs gi @
       prompt_before_diff) @ code_diff gi @ prompt_end"
    by (simp add: compose_prompt_parts)
  then show ?thesis by (simp only: sublist_appendI)
qed

lemma title_in_prompt: "sublist header_title (compose_prompt gi)"
  unfolding compose_prompt_def by (rule sublist_appendI)

lemma description_in_prompt: "sublist header_description (compose_prompt gi)"
proof -
  have "compose_prompt gi =
      (prompt_intro @ header_title @ prompt_after_title) @ header_description @
      (prompt_after_description @ header_key_changes @ prompt_after_key_changes @
       branch_name gi @ prompt_before_logs @ commit_logs gi @ prompt_before_diff @
       code_diff gi @ prompt_end)"
    by (simp add: compose_prompt_def)
  then show ?thesis by (simp only: sublist_appendI)
qed

lemma key_changes_in_prompt: "sublist header_key_changes (compose_prompt gi)"
proof -
  have "compose_prompt gi =
      (prompt_intro @ header_title @ prompt_after_title @ header_description @
       prompt_after_description) @ header_key_changes @
      (prompt_after_key_changes @
       branch_name gi @ prompt_before_logs @ commit_logs gi @ prompt_before_diff @
       code_diff gi @ prompt_end)"
    by (simp add: compose_prompt_def)
  then show ?thesis by (simp only: sublist_appendI)
qed

subsection \<open>\<^verbatim>\<open>strip\<close>\<close>

lemma rstrip_last: "rstrip s \<noteq> [] \<Longrightarrow> \<not> isspace (last (rstrip s))"
proof -
  assume n: "rstrip s \<noteq> []"
  then have d: "dropWhile isspace (rev s) \<noteq> []" by (simp add: rstrip_def)
  have "last (rstrip s) = hd (dropWhile isspace (rev s))"
    using d by (simp add: rstrip_def last_rev)
  then show ?thesis using hd_dropWhile[OF d] by simp
qed

lemma strip_last: "strip s \<noteq> [] \<Longrightarrow> \<not> isspace (last (strip s))"
  unfolding strip_def by (rule rstrip_last)

lemma isspace_newline: "isspace 10"
  by (simp add: isspace_def whitespace_def)

lemma strip_no_final_newline: "strip s \<noteq> [] \<Longrightarrow> last (strip s) \<noteq> 10"
  using strip_last[of s] isspace_newline by auto

lemma strip_exact:
  assumes "name \<noteq> []" "\<not> isspace (hd name)" "\<not> isspace (last name)"
  shows "strip (name @ [10]) = name"
proof -
  obtain c cs where n: "name = c # cs" using assms(1) by (cases name) auto
  have l: "lstrip (name @ [10]) = name @ [10]"
    using assms(2) n by (simp add: lstrip_def)
  obtain x xs where r: "rev name = x # xs" using assms(1) by (cases "rev name") auto
  have "x = last name" using r assms(1) by (metis hd_rev list.sel(1))
  then have "dropWhile isspace (x # xs) = x # xs"
    using assms(3) by simp
  then have "dropWhile isspace (rev name) = rev name"
    by (simp only: r)
  then have "dropWhile isspace (rev (name @ [10])) = rev name"
    using isspace_newline by simp
  then show ?thesis by (simp add: strip_def rstrip_def l)
qed

subsection \<open>\<^verbatim>\<open>splitlines\<close> and newline-separated entries\<close>

lemma linebreak_newline: "is_linebreak 10"
  by (simp add: is_linebreak_def linebreaks_def)

lemma linebreak_cr: "is_linebreak 13"
  by (simp add: is_linebreak_def linebreaks_def)

lemma splitlines_from_count:
  "(\<forall>c \<in> set s. is_linebreak c \<longrightarrow> c = 10) \<Longrightarrow> (s \<noteq> [] \<Longrightarrow> last s \<noteq> 10) \<Longrightarrow>
   length (splitlines_from cur s) =
     (if s = [] \<and> cur = [] then 0 else length (split_at_newlines cur s))"
proof (induction cur s rule: splitlines_from.induct)
  case (1 cur)
  then show ?case by simp
next
  case (2 cur c)
  then show ?case using linebreak_newline by auto
next
  case (3 cur c d cs)
  have c13: "\<not> (c = 13 \<and> d = 10)" using 3(4) linebreak_cr by auto
  have rest: "\<forall>x \<in> set (d # cs). is_linebreak x \<longrightarrow> x = 10" using 3(4) by simp
  have lst: "d # cs \<noteq> [] \<Longrightarrow> last (d # cs) \<noteq> 10" using 3(5) by simp
  show ?case
  proof (cases "is_linebreak c")
    case True
    then have c10: "c = 10" using 3(4) by simp
    have ih: "length (splitlines_from [] (d # cs)) = length (split_at_newlines [] (d # cs))"
      using 3(2)[OF c13 True rest lst] by (simp del: splitlines_from.simps split_at_newlines.simps)
    have l: "splitlines_from cur (c # d # cs) = cur # splitlines_from [] (d # cs)"
      using c13 True by auto
    have r: "split_at_newlines cur (c # d # cs) = cur # split_at_newlines [] (d # cs)"
      using c10 by simp
    have "length (splitlines_from cur (c # d # cs)) = length (split_at_newlines cur (c # d # cs))"
      by (simp only: l r ih list.size length_Cons)
    then show ?thesis by (simp del: splitlines_from.simps split_at_newlines.simps)
  next
    case False
    then have c10: "c \<noteq> 10" using linebreak_newline by auto
    have ih: "length (splitlines_from (cur @ [c]) (d # cs)) =
        length (split_at_newlines (cur @ [c]) (d # cs))"
      using 3(3)[OF c13 False rest lst] by (simp del: splitlines_from.simps split_at_newlines.simps)
    have l: "splitlines_from cur (c # d # cs) = splitlines_from (cur @ [c]) (d # cs)"
      using c13 False by auto
    have r: "split_at_newlines cur (c # d # cs) = split_at_newlines (cur @ [c]) (d # cs)"
      using c10 by simp
    have "length (splitlines_from cur (c # d # cs)) = length (split_at_newlines cur (c # d # cs))"
      by (simp only: l r ih)
    then show ?thesis by (simp del: splitlines_from.simps split_at_newlines.simps)
  qed
qed

lemma splitlines_count:
  assumes "\<forall>c \<in> set s. is_linebreak c \<longrightarrow> c = 10" and "s \<noteq> [] \<Longrightarrow> last s \<noteq> 10"
  shows "length (splitlines s) = length (newline_separated_entries s)"
  using splitlines_from_count[of s "[]", OF assms]
  by (simp add: splitlines_def newline_separated_entries_def)

subsection \<open>What a successful inspection returns\<close>

lemma get_git_info_Some:
  assumes "snd (get_git_info w b) = Inr (Some gi)"
  shows "\<exists>out1 out2 out3.
     run_checked w rev_parse_cmd = Inr out1 \<and> run_checked w (log_cmd b) = Inr out2 \<and>
     run_checked w (diff_cmd b) = Inr out3 \<and>
     gi = \<lparr>branch_name = strip out1, commit_logs = strip out2, code_diff = out3\<rparr>"
proof (cases "run_checked w rev_parse_cmd")
  case (Inl f)
  with assms show ?thesis by (simp add: get_git_info_def)
next
  case r1: (Inr out1)
  show ?thesis
  proof (cases "run_checked w (log_cmd b)")
    case (Inl f)
    with assms r1 show ?thesis by (simp add: get_git_info_def)
  next
    case r2: (Inr out2)
    show ?thesis
    proof (cases "run_checked w (diff_cmd b)")
      case (Inl f)
      with assms r1 r2 show ?thesis by (simp add: get_git_info_def)
    next
      case r3: (Inr out3)
      with assms r1 r2 show ?thesis by (simp add: get_git_info_def)
    qed
  qed
qed

text \<open>Two runs that see the same results of the three commands return the same value.\<close>

lemma get_git_info_deterministic:
  assumes "subprocess_run w1 rev_parse_cmd = subprocess_run w2 rev_parse_cmd"
      and "subprocess_run w1 (log_cmd b) = subprocess_run w2 (log_cmd b)"
      and "subprocess_run w1 (diff_cmd b) = subprocess_run w2 (diff_cmd b)"
  shows "get_git_info w1 b = get_git_info w2 b"
proof -
  have h: "run_checked w1 rev_parse_cmd = run_checked w2 rev_parse_cmd"
    "run_checked w1 (log_cmd b) = run_checked w2 (log_cmd b)"
    "run_checked w1 (diff_cmd b) = run_checked w2 (diff_cmd b)"
    using assms by (simp_all add: run_checked_def)
  show ?thesis unfolding get_git_info_def h by (rule refl)
qed

text \<open>
  When \<^verbatim>\<open>rev-parse\<close> prints a name that neither begins nor ends with whitespace, followed
  by a line feed, a successful run returns that name.
\<close>

lemma branch_name_exact:
  assumes "snd (get_git_info w b) = Inr (Some gi)"
      and "subprocess_run w rev_parse_cmd = Inr (Completed 0 (name @ [10]) err)"
      and "name \<noteq> []" "\<not> isspace (hd name)" "\<not> isspace (last name)"
  shows "branch_name gi = name"
proof -
  from get_git_info_Some[OF assms(1)] obtain out1 out2 out3 where
    r: "run_checked w rev_parse_cmd = Inr out1"
    and g: "gi = \<lparr>branch_name = strip out1, commit_logs = strip out2, code_diff = out3\<rparr>"
    by blast
  have "out1 = name @ [10]" using r assms(2) by (simp add: run_checked_def)
  then show ?thesis using g strip_exact[OF assms(3-5)] by simp
qed

text \<open>
  After a successful run, the count printed is the number of newline-separated entries of
  the commit logs whenever the only line boundaries in them are line feeds; for empty commit
  logs it is 0.
\<close>

lemma commit_count_entries:
  assumes "snd (get_git_info w b) = Inr (Some gi)"
      and "\<forall>c \<in> set (commit_logs gi). is_linebreak c \<longrightarrow> c = 10"
  shows "commit_count gi = length (newline_separated_entries (commit_logs gi))"
proof -
  from get_git_info_Some[OF assms(1)] obtain out1 out2 out3 where
    g: "gi = \<lparr>branch_name = strip out1, commit_logs = strip out2, code_diff = out3\<rparr>"
    by blast
  then have "commit_logs gi \<noteq> [] \<Longrightarrow> last (commit_logs gi) \<noteq> 10"
    using strip_no_final_newline[of out2] by simp
  from splitlines_count[OF assms(2) this] show ?thesis by (simp add: commit_count_def)
qed

lemma commit_count_empty: "commit_logs gi = [] \<Longrightarrow> commit_count gi = 0"
  by (simp add: commit_count_def splitlines_def)

subsection \<open>The repository with a form feed in a subject\<close>

lemma str_nat_2: "str_nat 2 = ascii ''2''"
  by (simp add: str_nat.simps ascii_def)

lemma form_feed_get_git_info:
  "get_git_info form_feed_world (ascii ''main'') =
    ([Subprocess rev_parse_cmd, Subprocess (log_cmd (ascii ''main'')),
      Subprocess (diff_cmd (ascii ''main''))], Inr (Some form_feed_git_info))"
  by (simp add: get_git_info_def form_feed_world_def form_feed_git_info_def strip_def lstrip_def
      rstrip_def isspace_def whitespace_def ascii_def)

lemma form_feed_count: "commit_count form_feed_git_info = 2"
  by (simp add: commit_count_def form_feed_git_info_def splitlines_def is_linebreak_def
      linebreaks_def ascii_def)

lemma form_feed_count_line:
  "commit_count_line form_feed_git_info =
     [0xCEE4, 0xBC0B] @ ascii '' '' @ [0xC218] @ ascii '': 2'' @ [0xAC1C]"
  by (simp add: commit_count_line_def form_feed_count str_nat_2 ascii_def)

lemma form_feed_entries:
  "newline_separated_entries (commit_logs form_feed_git_info) = [ascii ''a'' @ [0x0C] @ ascii ''b'']"
  by (simp add: newline_separated_entries_def form_feed_git_info_def ascii_def)


section \<open>The claims\<close>

text \<open>
  C1. If the Repository Inspector fails (a git command it runs exits non-zero, or the git
  executable is not found), the run prints the two opening lines, starts the commands up to
  the failing one, prints the error message and nothing after it, makes no call to the
  completion service, and ends normally: no exit status is set.
\<close>

theorem inspector_failure_stops_the_run:
  assumes "parse_args argv = Parsed base"
      and "inspector_fails w base"
  shows "\<exists>cmds msg.
           fst (main w argv) =
             [Print (banner base), Print collecting_message] @ map Subprocess cmds @ [Print msg] \<and>
           (msg = git_missing_message \<or> (\<exists>err. msg = git_error_prefix @ err)) \<and>
           \<not> list_ex is_remote_call (fst (main w argv)) \<and>
           snd (main w argv) = NormalExit"
proof -
  from assms(2) have n: "snd (get_git_info w base) = Inr None"
    by (simp add: inspector_fails_iff)
  from get_git_info_None[OF n] obtain cmds msg where
    e: "fst (get_git_info w base) = map Subprocess cmds @ [Print msg]"
    and m: "msg = git_missing_message \<or> (\<exists>err. msg = git_error_prefix @ err)" by blast
  have d: "main w argv = ([Print (banner base), Print collecting_message] @ fst (get_git_info w base), NormalExit)"
    using main_Parsed[OF assms(1)] driver_None[OF n] by simp
  have "fst (main w argv) = [Print (banner base), Print collecting_message] @ map Subprocess cmds @ [Print msg]"
    using d e by simp
  moreover have "\<not> list_ex is_remote_call (fst (main w argv))" using d e by simp
  moreover have "snd (main w argv) = NormalExit" using d by simp
  ultimately show ?thesis using m by blast
qed

text \<open>The run for a base branch that does not exist.\<close>

theorem inspector_failure_stops_the_run_witness:
  "inspector_fails unknown_base_world (ascii ''nope'') \<and>
   printed (fst (main unknown_base_world [ascii ''nope''])) =
     [banner (ascii ''nope''), collecting_message, git_error_prefix @ ascii ''fatal: bad revision''] \<and>
   \<not> list_ex is_remote_call (fst (main unknown_base_world [ascii ''nope''])) \<and>
   snd (main unknown_base_world [ascii ''nope'']) = NormalExit"
proof -
  have p: "parse_args [ascii ''nope''] = Parsed (ascii ''nope'')"
    by (rule parse_args_plain) (simp add: ascii_def)
  have f: "inspector_fails unknown_base_world (ascii ''nope'')"
    by (simp add: inspector_fails_def unknown_base_world_def ok_def)
  have g: "get_git_info unknown_base_world (ascii ''nope'') =
      ([Subprocess rev_parse_cmd, Subprocess (log_cmd (ascii ''nope'')),
        Print (git_error_prefix @ ascii ''fatal: bad revision'')], Inr None)"
    by (simp add: get_git_info_def unknown_base_world_def run_checked_def ok_def)
  have d: "main unknown_base_world [ascii ''nope''] = driver unknown_base_world (ascii ''nope'')"
    by (rule main_Parsed[OF p])
  have q: "printed (fst (main unknown_base_world [ascii ''nope''])) =
     [banner (ascii ''nope''), collecting_message, git_error_prefix @ ascii ''fatal: bad revision'']"
    unfolding d by (simp add: driver_def g)
  from inspector_failure_stops_the_run[OF p f] have
    r: "\<not> list_ex is_remote_call (fst (main unknown_base_world [ascii ''nope'']))"
       "snd (main unknown_base_world [ascii ''nope'']) = NormalExit" by blast+
  show ?thesis using f q r by (intro conjI)
qed

text \<open>
  C2. When a credential is set, the client is built, and the chat-completion call fails with
  an error (the call raises an exception of class \<^verbatim>\<open>Exception\<close>, or the response has no
  choice to read), \<^verbatim>\<open>generate_pr_message\<close> returns a string, the fixed call-failed text
  followed by the text of the error, and no exception leaves the function.
\<close>

theorem remote_errors_are_returned_as_text:
  assumes "\<not> falsy (getenv w OPENAI_API_KEY)"
      and "openai_client w (the (getenv w OPENAI_API_KEY)) = None"
      and "call_and_read w (the (getenv w OPENAI_API_KEY)) gi = Inl e"
      and "is_Exception e"
  shows "snd (generate_pr_message w gi) = Inr (Some (call_failed_prefix @ str_exc e)) \<and>
         sublist call_failed_marker (call_failed_prefix @ str_exc e)"
  using assms by (simp add: generate_truthy call_failed_marker_in_text)

text \<open>The service cannot be reached.\<close>

theorem remote_errors_are_returned_as_text_witness:
  "\<not> falsy (getenv unreachable_world OPENAI_API_KEY) \<and>
   openai_client unreachable_world (the (getenv unreachable_world OPENAI_API_KEY)) = None \<and>
   is_Exception (Exc OtherException (ascii ''Connection error.'')) \<and>
   snd (generate_pr_message unreachable_world sample_git_info) =
     Inr (Some (call_failed_prefix @ ascii ''Connection error.''))"
proof -
  have k: "\<not> falsy (getenv unreachable_world OPENAI_API_KEY)"
    by (simp add: unreachable_world_def ascii_def)
  have c: "call_and_read unreachable_world (the (getenv unreachable_world OPENAI_API_KEY))
      sample_git_info = Inl (Exc OtherException (ascii ''Connection error.''))"
    by (simp add: unreachable_world_def call_and_read_def)
  have o: "openai_client unreachable_world (the (getenv unreachable_world OPENAI_API_KEY)) = None"
    by (simp add: unreachable_world_def)
  have x: "is_Exception (Exc OtherException (ascii ''Connection error.''))" by simp
  from remote_errors_are_returned_as_text[OF k o c x] k o x show ?thesis by simp
qed

text \<open>
  C3. When the authentication variable is unset, \<^verbatim>\<open>generate_pr_message\<close> returns the
  missing-credential message, which holds the marker, and makes no remote call; after a
  successful inspection the driver prints that message and the process ends normally.
\<close>

theorem unset_credential_is_reported:
  assumes "getenv w OPENAI_API_KEY = None"
  shows "generate_pr_message w gi =
           ([Getenv OPENAI_API_KEY], Inr (Some missing_credential_message)) \<and>
         sublist missing_credential_marker missing_credential_message \<and>
         \<not> list_ex is_remote_call (fst (generate_pr_message w gi)) \<and>
         (snd (get_git_info w b) = Inr (Some gi) \<longrightarrow>
            snd (driver w b) = NormalExit \<and>
            \<not> list_ex is_remote_call (fst (driver w b)) \<and>
            missing_credential_message \<in> set (printed (fst (driver w b))))"
proof -
  have f: "falsy (getenv w OPENAI_API_KEY)" using assms by simp
  have g: "generate_pr_message w gi =
           ([Getenv OPENAI_API_KEY], Inr (Some missing_credential_message))"
    by (rule generate_falsy[OF f])
  have d: "snd (driver w b) = NormalExit \<and> \<not> list_ex is_remote_call (fst (driver w b)) \<and>
      missing_credential_message \<in> set (printed (fst (driver w b)))"
    if s: "snd (get_git_info w b) = Inr (Some gi)"
  proof -
    obtain ev1 where e: "get_git_info w b = (ev1, Inr (Some gi))"
      using s by (cases "get_git_info w b") simp
    have n: "\<not> list_ex is_remote_call ev1"
    proof -
      show ?thesis
      proof (cases "run_checked w rev_parse_cmd")
        case (Inl f) with e show ?thesis by (simp add: get_git_info_def)
      next
        case r1: (Inr o1)
        show ?thesis
        proof (cases "run_checked w (log_cmd b)")
          case (Inl f) with e r1 show ?thesis by (simp add: get_git_info_def)
        next
          case r2: (Inr o2)
          show ?thesis using e r1 r2
            by (cases "run_checked w (diff_cmd b)") (auto simp add: get_git_info_def)
        qed
      qed
    qed
    show ?thesis using n by (simp add: driver_Some_Inr[OF e g] report_def)
  qed
  show ?thesis using g d by (simp add: missing_marker_in_message)
qed

text \<open>A repository in good order and no credential.\<close>

theorem unset_credential_is_reported_witness:
  "getenv unset_key_world OPENAI_API_KEY = None \<and>
   snd (get_git_info unset_key_world (ascii ''main'')) = Inr (Some sample_git_info) \<and>
   generate_pr_message unset_key_world sample_git_info =
     ([Getenv OPENAI_API_KEY], Inr (Some missing_credential_message)) \<and>
   snd (driver unset_key_world (ascii ''main'')) = NormalExit \<and>
   \<not> list_ex is_remote_call (fst (driver unset_key_world (ascii ''main'')))"
proof -
  have k: "getenv unset_key_world OPENAI_API_KEY = None"
    by (simp add: unset_key_world_def)
  have s: "snd (get_git_info unset_key_world (ascii ''main'')) = Inr (Some sample_git_info)"
    by (simp add: unset_key_get_git_info)
  from unset_credential_is_reported[OF k, of sample_git_info "ascii ''main''"] k s
  show ?thesis by blast
qed

text \<open>
  C4. The claim is that the count printed equals the number of newline-separated entries of
  the commit logs. The driver prints the number of lines \<^verbatim>\<open>splitlines\<close> finds, and
  \<^verbatim>\<open>splitlines\<close> also cuts at a form feed: with one commit whose subject is
  \<^verbatim>\<open>a\<close>, a form feed, \<^verbatim>\<open>b\<close>, the inspector succeeds, the commit logs have one
  newline-separated entry, and the line printed under "number of commits" says 2.
  (\<open>commit_count_entries\<close> and \<open>commit_count_empty\<close> above show the count is right when
  line feeds are the only line boundaries, and 0 for empty commit logs.)
\<close>

theorem form_feed_in_subject_counts_as_two_commits:
  "snd (get_git_info form_feed_world (ascii ''main'')) = Inr (Some form_feed_git_info) \<and>
   commit_logs form_feed_git_info = ascii ''a'' @ [0x0C] @ ascii ''b'' \<and>
   take 4 (printed (fst (main form_feed_world []))) =
     [banner (ascii ''main''), collecting_message, branch_line form_feed_git_info,
      [0xCEE4, 0xBC0B] @ ascii '' '' @ [0xC218] @ ascii '': 2'' @ [0xAC1C]] \<and>
   snd (main form_feed_world []) = NormalExit \<and>
   length (newline_separated_entries (commit_logs form_feed_git_info)) = 1"
proof -
  have g: "generate_pr_message form_feed_world gi =
      ([Getenv OPENAI_API_KEY], Inr (Some missing_credential_message))" for gi
    by (rule generate_falsy) (simp add: form_feed_world_def)
  have m: "main form_feed_world [] = driver form_feed_world (ascii ''main'')"
    by (simp add: main_def parse_args_Nil)
  have d: "driver form_feed_world (ascii ''main'') =
     ([Print (banner (ascii ''main'')), Print collecting_message] @
      [Subprocess rev_parse_cmd, Subprocess (log_cmd (ascii ''main'')),
       Subprocess (diff_cmd (ascii ''main''))] @
      [Print (branch_line form_feed_git_info), Print (commit_count_line form_feed_git_info),
       Print generating_message] @ [Getenv OPENAI_API_KEY] @
      report (Some missing_credential_message), NormalExit)"
    by (rule driver_Some_Inr[OF form_feed_get_git_info g])
  have p: "take 4 (printed (fst (main form_feed_world []))) =
     [banner (ascii ''main''), collecting_message, branch_line form_feed_git_info,
      commit_count_line form_feed_git_info]"
    unfolding m d by simp
  have e: "snd (main form_feed_world []) = NormalExit"
    unfolding m d by simp
  have c: "commit_logs form_feed_git_info = ascii ''a'' @ [0x0C] @ ascii ''b''"
    by (simp add: form_feed_git_info_def)
  have s: "snd (get_git_info form_feed_world (ascii ''main'')) = Inr (Some form_feed_git_info)"
    by (simp add: form_feed_get_git_info)
  have n: "length (newline_separated_entries (commit_logs form_feed_git_info)) = 1"
    by (simp add: form_feed_entries)
  show ?thesis
    using s c p e n unfolding form_feed_count_line by (intro conjI)
qed

text \<open>
  C5. For every GitInfo the prompt is the fixed text with the branch name, the commit logs
  and the diff put in whole and in this order: each is a substring of the prompt, as are the
  three section headers; the length of the prompt is the length of the fixed text plus the
  lengths of the three inputs, so nothing is cut or replaced; and the prompt is the content
  of the single user message of the request.
\<close>

theorem prompt_embeds_inputs_verbatim:
  "compose_prompt gi =
     prompt_fixed_head @ branch_name gi @ prompt_before_logs @ commit_logs gi @
     prompt_before_diff @ code_diff gi @ prompt_end \<and>
   sublist (branch_name gi) (compose_prompt gi) \<and>
   sublist (commit_logs gi) (compose_prompt gi) \<and>
   sublist (code_diff gi) (compose_prompt gi) \<and>
   sublist header_title (compose_prompt gi) \<and>
   sublist header_description (compose_prompt gi) \<and>
   sublist header_key_changes (compose_prompt gi) \<and>
   length (compose_prompt gi) =
     length (compose_prompt \<lparr>branch_name = [], commit_logs = [], code_diff = []\<rparr>) +
     length (branch_name gi) + length (commit_logs gi) + length (code_diff gi) \<and>
   request_messages gi = [(ascii ''user'', compose_prompt gi)]"
proof -
  have l: "length (compose_prompt gi) =
     length (compose_prompt \<lparr>branch_name = [], commit_logs = [], code_diff = []\<rparr>) +
     length (branch_name gi) + length (commit_logs gi) + length (code_diff gi)"
    by (simp add: compose_prompt_parts)
  show ?thesis
    using compose_prompt_parts branch_in_prompt logs_in_prompt diff_in_prompt title_in_prompt
      description_in_prompt key_changes_in_prompt l
    by (simp add: request_messages_def)
qed

text \<open>The fixed example of the specification.\<close>

theorem prompt_embeds_inputs_verbatim_witness:
  "sublist (ascii ''feature/x'') (compose_prompt sample_git_info) \<and>
   sublist (ascii ''fix bug'') (compose_prompt sample_git_info) \<and>
   sublist (ascii ''--- a'' @ [10] @ ascii ''+++ b'' @ [10]) (compose_prompt sample_git_info) \<and>
   sublist (ascii ''### '' @ [0xC81C, 0xBAA9]) (compose_prompt sample_git_info) \<and>
   sublist (ascii ''### '' @ [0xC124, 0xBA85]) (compose_prompt sample_git_info) \<and>
   sublist (ascii ''### '' @ [0xC8FC, 0xC694] @ ascii '' '' @ [0xBCC0, 0xACBD] @ ascii '' '' @
     [0xC0AC, 0xD56D]) (compose_prompt sample_git_info)"
proof -
  have b: "branch_name sample_git_info = ascii ''feature/x''"
    "commit_logs sample_git_info = ascii ''fix bug''"
    "code_diff sample_git_info = ascii ''--- a'' @ [10] @ ascii ''+++ b'' @ [10]"
    by (simp_all add: sample_git_info_def)
  from prompt_embeds_inputs_verbatim[of sample_git_info] show ?thesis
    unfolding b header_title_def header_description_def header_key_changes_def by blast
qed

text \<open>
  C6, as amended. For every base branch \<open>b\<close> the inspector starts, in this order and
  stopping after the first that does not return 0: \<^verbatim>\<open>git rev-parse --abbrev-ref HEAD\<close>,
  \<^verbatim>\<open>git log b..HEAD --oneline --pretty=format:%s\<close> (two dots) and
  \<^verbatim>\<open>git diff b...HEAD\<close> (three dots). A run that returns a GitInfo has started exactly
  these three.
\<close>

theorem inspector_commands_in_order:
  "commands (fst (get_git_info w b)) =
     take (if \<not> exits_zero (subprocess_run w rev_parse_cmd) then 1
           else if \<not> exits_zero (subprocess_run w (log_cmd b)) then 2 else 3)
       [[ascii ''git'', ascii ''rev-parse'', ascii ''--abbrev-ref'', ascii ''HEAD''],
        [ascii ''git'', ascii ''log'', b @ ascii ''..HEAD'', ascii ''--oneline'',
         ascii ''--pretty=format:%s''],
        [ascii ''git'', ascii ''diff'', b @ ascii ''...HEAD'']] \<and>
   (snd (get_git_info w b) = Inr (Some gi) \<longrightarrow>
     commands (fst (get_git_info w b)) =
       [[ascii ''git'', ascii ''rev-parse'', ascii ''--abbrev-ref'', ascii ''HEAD''],
        [ascii ''git'', ascii ''log'', b @ ascii ''..HEAD'', ascii ''--oneline'',
         ascii ''--pretty=format:%s''],
        [ascii ''git'', ascii ''diff'', b @ ascii ''...HEAD'']])"
proof -
  have a: "commands (fst (get_git_info w b)) =
     take (if \<not> exits_zero (subprocess_run w rev_parse_cmd) then 1
           else if \<not> exits_zero (subprocess_run w (log_cmd b)) then 2 else 3)
       [rev_parse_cmd, log_cmd b, diff_cmd b]"
    by (simp add: get_git_info_commands)
  have b: "snd (get_git_info w b) = Inr (Some gi) \<Longrightarrow>
     commands (fst (get_git_info w b)) = [rev_parse_cmd, log_cmd b, diff_cmd b]"
    using get_git_info_Some_zero[of w b gi] by (simp add: get_git_info_commands)
  show ?thesis using a b unfolding rev_parse_cmd_def log_cmd_def diff_cmd_def by blast
qed

text \<open>A repository in good order.\<close>

theorem inspector_commands_in_order_witness:
  "snd (get_git_info healthy_world (ascii ''main'')) = Inr (Some sample_git_info) \<and>
   commands (fst (get_git_info healthy_world (ascii ''main''))) =
     [[ascii ''git'', ascii ''rev-parse'', ascii ''--abbrev-ref'', ascii ''HEAD''],
      [ascii ''git'', ascii ''log'', ascii ''main'' @ ascii ''..HEAD'', ascii ''--oneline'',
       ascii ''--pretty=format:%s''],
      [ascii ''git'', ascii ''diff'', ascii ''main'' @ ascii ''...HEAD'']]"
proof -
  have s: "snd (get_git_info healthy_world (ascii ''main'')) = Inr (Some sample_git_info)"
    by (simp add: healthy_get_git_info)
  from inspector_commands_in_order[of healthy_world "ascii ''main''" sample_git_info] s
  show ?thesis by blast
qed

text \<open>
  C6 as stated fails: for a base branch that does not exist the log command exits 128 and
  the diff command is never started, so two commands are invoked, not three.
\<close>

theorem unknown_base_runs_two_commands:
  "commands (fst (get_git_info unknown_base_world (ascii ''nope''))) =
     [rev_parse_cmd, log_cmd (ascii ''nope'')] \<and>
   commands (fst (get_git_info unknown_base_world (ascii ''nope''))) \<noteq>
     [rev_parse_cmd, log_cmd (ascii ''nope''), diff_cmd (ascii ''nope'')]"
  by (simp add: unknown_base_get_git_info)

text \<open>
  C7. The claim is that the branch name returned is the name of the checked-out branch
  exactly. The inspector returns what \<^verbatim>\<open>rev-parse\<close> printed with \<^verbatim>\<open>strip()\<close> applied,
  and \<^verbatim>\<open>strip()\<close> removes a no-break space as well as the final line feed: on a branch
  named \<^verbatim>\<open>wip\<close> followed by U+00A0 every command succeeds and the branch name returned
  is \<^verbatim>\<open>wip\<close>. (\<open>branch_name_exact\<close> above shows the name is returned exactly when it
  neither begins nor ends with whitespace, and \<open>get_git_info_deterministic\<close> that two runs
  that see the same command results return the same value.)
\<close>

theorem branch_name_loses_trailing_no_break_space:
  "subprocess_run nbsp_branch_world rev_parse_cmd =
     Inr (Completed 0 (ascii ''wip'' @ [0xA0] @ [10]) []) \<and>
   snd (get_git_info nbsp_branch_world (ascii ''main'')) =
     Inr (Some \<lparr>branch_name = ascii ''wip'', commit_logs = ascii ''fix bug'',
       code_diff = ascii ''--- a'' @ [10] @ ascii ''+++ b'' @ [10]\<rparr>) \<and>
   ascii ''wip'' \<noteq> ascii ''wip'' @ [0xA0]"
  by (simp add: get_git_info_def nbsp_branch_world_def nbsp_branch_name_def ok_def
      run_checked_def strip_def lstrip_def rstrip_def isspace_def whitespace_def ascii_def)

text \<open>
  C8, as amended. The CLI accepts zero or one positional argument. With no argument the base
  branch is \<^verbatim>\<open>main\<close>. One argument that \<^verbatim>\<open>argparse\<close> reads as a positional is the base
  branch: every string that does not begin with \<^verbatim>\<open>-\<close>, and also \<^verbatim>\<open>-\<close> alone, every
  negative number such as \<^verbatim>\<open>-1\<close> or \<^verbatim>\<open>-1.5\<close>, and a string such as \<^verbatim>\<open>-a b\<close> that has
  a space in it and is no form of the help flag. The base branch is the one all git commands
  of the run are built from. The only flags are the forms of
  \<^verbatim>\<open>-h\<close> and \<^verbatim>\<open>--help\<close>, which print the help and exit with status 0 before any git
  command: a command line is accepted only if it is empty, one argument, or one argument and
  the separator \<^verbatim>\<open>--\<close>; in every other case the process exits with the help (and then one
  argument begins with \<^verbatim>\<open>-h\<close> or is \<^verbatim>\<open>--h\<close>, \<^verbatim>\<open>--he\<close>, \<^verbatim>\<open>--hel\<close> or
  \<^verbatim>\<open>--help\<close>) or with a usage error, and no git command is started.
\<close>

theorem command_line_surface:
  "parse_args [] = Parsed (ascii ''main'') \<and>
   main w [] = driver w (ascii ''main'') \<and>
   (arg_kind_of a = Positional \<and> a \<noteq> ascii ''--'' \<longrightarrow>
      parse_args [a] = Parsed a \<and> main w [a] = driver w a) \<and>
   (\<not> begins_with_dash a \<longrightarrow> arg_kind_of a = Positional \<and> a \<noteq> ascii ''--'') \<and>
   (negative_number a \<longrightarrow> arg_kind_of a = Positional) \<and>
   arg_kind_of (ascii ''-'') = Positional \<and>
   arg_kind_of (ascii ''-1'') = Positional \<and>
   arg_kind_of (ascii ''-1.5'') = Positional \<and>
   arg_kind_of (ascii ''-a b'') = Positional \<and>
   commands (fst (driver w base)) = commands (fst (get_git_info w base)) \<and>
   (parse_args argv = Parsed base \<longrightarrow>
      ((argv = [] \<or> argv = [ascii ''--'']) \<and> base = ascii ''main'') \<or> argv = [base] \<or>
      argv = [ascii ''--'', base] \<or> argv = [base, ascii ''--'']) \<and>
   (parse_args argv = HelpExit \<longrightarrow>
      list_ex (\<lambda>a. prefix (ascii ''-h'') a \<or> a = ascii ''--h'' \<or> a = ascii ''--he'' \<or>
         a = ascii ''--hel'' \<or> a = ascii ''--help'') argv \<and>
      main w argv = ([PrintHelp], SystemExit 0)) \<and>
   (parse_args argv = UsageError \<longrightarrow> main w argv = ([PrintUsageError], SystemExit 2)) \<and>
   main w [ascii ''-h''] = ([PrintHelp], SystemExit 0) \<and>
   main w [ascii ''--help''] = ([PrintHelp], SystemExit 0) \<and>
   (\<not> begins_with_dash a \<and> \<not> begins_with_dash b \<longrightarrow>
      main w [a, b] = ([PrintUsageError], SystemExit 2))"
proof -
  have k: "arg_kind_of (ascii ''-'') = Positional" "arg_kind_of (ascii ''-1'') = Positional"
    "arg_kind_of (ascii ''-1.5'') = Positional" "arg_kind_of (ascii ''-a b'') = Positional"
    by (simp_all add: arg_kind_of_def ascii_def before_equals_def without_final_newline_def
        digits_def is_digit_def digit_runs_def)
  have p: "arg_kind_of a = Positional \<and> a \<noteq> ascii ''--'' \<Longrightarrow>
      parse_args [a] = Parsed a \<and> main w [a] = driver w a"
    using parse_args_positional[of a] main_Parsed[of "[a]" a w] by simp
  have h: "parse_args [ascii ''-h''] = HelpExit" "parse_args [ascii ''--help''] = HelpExit"
    by (simp_all add: parse_args_def arg_kind_of_def ascii_def)
  have two: "parse_args [a, b] = UsageError"
    if "\<not> begins_with_dash a" "\<not> begins_with_dash b"
    using plain_is_positional[OF that(1)] plain_is_positional[OF that(2)]
    by (simp add: parse_args_def)
  show ?thesis
    using k p h two parse_args_Nil main_Parsed[of "[]" "ascii ''main''" w]
      plain_is_positional[of a] negative_number_positional[of a] driver_commands[of w base]
      parse_args_Parsed[of argv base]
      parse_args_HelpExit[of argv] main_not_Parsed[of argv w] main_not_Parsed(1)[of "[ascii ''-h'']" w]
      main_not_Parsed(1)[of "[ascii ''--help'']" w] main_not_Parsed(2)[of "[a, b]" w]
    by (intro conjI impI) (simp_all only: simp_thms)
qed

text \<open>
  The arguments \<^verbatim>\<open>develop\<close>, \<^verbatim>\<open>-1\<close> and \<^verbatim>\<open>-\<close> are base branches; \<^verbatim>\<open>develop extra\<close>,
  \<^verbatim>\<open>-x\<close> and \<^verbatim>\<open>--version\<close> are usage errors; \<^verbatim>\<open>--he\<close> and \<^verbatim>\<open>develop -h\<close> print the
  help.
\<close>

theorem command_line_surface_witness:
  "\<not> begins_with_dash (ascii ''develop'') \<and> \<not> begins_with_dash (ascii ''extra'') \<and>
   main healthy_world [ascii ''develop''] = driver healthy_world (ascii ''develop'') \<and>
   main healthy_world [ascii ''-1''] = driver healthy_world (ascii ''-1'') \<and>
   main healthy_world [ascii ''-''] = driver healthy_world (ascii ''-'') \<and>
   main healthy_world [] = driver healthy_world (ascii ''main'') \<and>
   main healthy_world [ascii ''develop'', ascii ''extra''] = ([PrintUsageError], SystemExit 2) \<and>
   main healthy_world [ascii ''-x''] = ([PrintUsageError], SystemExit 2) \<and>
   main healthy_world [ascii ''--version''] = ([PrintUsageError], SystemExit 2) \<and>
   main healthy_world [ascii ''--he''] = ([PrintHelp], SystemExit 0) \<and>
   main healthy_world [ascii ''develop'', ascii ''-h''] = ([PrintHelp], SystemExit 0)"
proof -
  have d: "\<not> begins_with_dash (ascii ''develop'')" "\<not> begins_with_dash (ascii ''extra'')"
    by (simp_all add: ascii_def)
  have n: "ascii ''-1'' \<noteq> ascii ''--''" "ascii ''-'' \<noteq> ascii ''--''"
    by (simp_all add: ascii_def)
  have u: "parse_args [ascii ''-x''] = UsageError" "parse_args [ascii ''--version''] = UsageError"
    by (simp_all add: parse_args_def arg_kind_of_def ascii_def before_equals_def
        without_final_newline_def digits_def is_digit_def digit_runs_def)
  have e: "parse_args [ascii ''--he''] = HelpExit"
    "parse_args [ascii ''develop'', ascii ''-h''] = HelpExit"
    by (simp_all add: parse_args_def arg_kind_of_def ascii_def before_equals_def)
  note t = command_line_surface[of healthy_world]
  have 1: "main healthy_world [ascii ''develop''] = driver healthy_world (ascii ''develop'')"
    "main healthy_world [ascii ''develop'', ascii ''extra''] = ([PrintUsageError], SystemExit 2)"
    "main healthy_world [] = driver healthy_world (ascii ''main'')"
    using t[of "ascii ''develop''" "ascii ''main''" "[]" "ascii ''extra''"] d by blast+
  have 2: "main healthy_world [ascii ''-1''] = driver healthy_world (ascii ''-1'')"
    using t[of "ascii ''-1''" "ascii ''main''" "[]" "ascii ''extra''"] n by blast
  have 3: "main healthy_world [ascii ''-''] = driver healthy_world (ascii ''-'')"
    using t[of "ascii ''-''" "ascii ''main''" "[]" "ascii ''extra''"] n by blast
  have 4: "main healthy_world [ascii ''-x''] = ([PrintUsageError], SystemExit 2)"
    using t[of "ascii ''develop''" "ascii ''main''" "[ascii ''-x'']" "ascii ''extra''"] u by blast
  have 5: "main healthy_world [ascii ''--version''] = ([PrintUsageError], SystemExit 2)"
    using t[of "ascii ''develop''" "ascii ''main''" "[ascii ''--version'']" "ascii ''extra''"] u
    by blast
  have 6: "main healthy_world [ascii ''--he''] = ([PrintHelp], SystemExit 0)"
    using t[of "ascii ''develop''" "ascii ''main''" "[ascii ''--he'']" "ascii ''extra''"] e by blast
  have 7: "main healthy_world [ascii ''develop'', ascii ''-h''] = ([PrintHelp], SystemExit 0)"
    using t[of "ascii ''develop''" "ascii ''main''" "[ascii ''develop'', ascii ''-h'']"
        "ascii ''extra''"] e by blast
  show ?thesis using d 1 2 3 4 5 6 7 by (intro conjI)
qed

text \<open>
  C8 as stated fails: the one argument \<^verbatim>\<open>-h\<close> is a flag, not a base branch; the run
  prints the help, starts no git command and exits with status 0.
\<close>

theorem help_flag_is_not_a_base_branch:
  "parse_args [ascii ''-h''] = HelpExit \<and>
   main healthy_world [ascii ''-h''] = ([PrintHelp], SystemExit 0) \<and>
   commands (fst (main healthy_world [ascii ''-h''])) = []"
  by (simp add: main_def parse_args_def arg_kind_of_def ascii_def)

text \<open>
  C9. When the credential is absent (unset or empty) the variable read is
  \<^verbatim>\<open>OPENAI_API_KEY\<close> and the string returned is exactly the fixed message, which names
  \<^verbatim>\<open>GEMINI_API_KEY\<close> and does not mention \<^verbatim>\<open>OPENAI\<close>; the message for a failed call
  begins with \<^verbatim>\<open>Gemini API\<close>.
\<close>

theorem missing_credential_text_names_gemini:
  assumes "falsy (getenv w OPENAI_API_KEY)"
  shows "generate_pr_message w gi =
           ([Getenv (ascii ''OPENAI_API_KEY'')],
            Inr (Some ([0xC624, 0xB958] @ ascii '': GEMINI_API_KEY'' @ [0xAC00] @ ascii '' '' @
              [0xC124, 0xC815, 0xB418, 0xC9C0] @ ascii '' '' @
              [0xC54A, 0xC558, 0xC2B5, 0xB2C8, 0xB2E4] @ ascii ''. .env '' @
              [0xD30C, 0xC77C, 0xC744] @ ascii '' '' @
              [0xD655, 0xC778, 0xD574, 0xC8FC, 0xC138, 0xC694] @ ascii ''.''))) \<and>
         sublist (ascii ''GEMINI_API_KEY'') missing_credential_message \<and>
         \<not> sublist (ascii ''OPENAI'') missing_credential_message \<and>
         (is_Exception e \<longrightarrow>
            catch_exception (Inl e) =
              Inr (Some (ascii ''Gemini API '' @ [0xD638, 0xCD9C] @ ascii '' '' @ [0xC911] @
                ascii '' '' @ [0xC624, 0xB958, 0xAC00] @ ascii '' '' @
                [0xBC1C, 0xC0DD, 0xD588, 0xC2B5, 0xB2C8, 0xB2E4] @ ascii '': '' @ str_exc e)))"
proof -
  have a: "generate_pr_message w gi =
           ([Getenv (ascii ''OPENAI_API_KEY'')],
            Inr (Some ([0xC624, 0xB958] @ ascii '': GEMINI_API_KEY'' @ [0xAC00] @ ascii '' '' @
              [0xC124, 0xC815, 0xB418, 0xC9C0] @ ascii '' '' @
              [0xC54A, 0xC558, 0xC2B5, 0xB2C8, 0xB2E4] @ ascii ''. .env '' @
              [0xD30C, 0xC77C, 0xC744] @ ascii '' '' @
              [0xD655, 0xC778, 0xD574, 0xC8FC, 0xC138, 0xC694] @ ascii ''.'')))"
    using generate_falsy[OF assms, of gi]
    unfolding OPENAI_API_KEY_def missing_credential_message_def by simp
  have b: "is_Exception e \<Longrightarrow>
            catch_exception (Inl e) =
              Inr (Some (ascii ''Gemini API '' @ [0xD638, 0xCD9C] @ ascii '' '' @ [0xC911] @
                ascii '' '' @ [0xC624, 0xB958, 0xAC00] @ ascii '' '' @
                [0xBC1C, 0xC0DD, 0xD588, 0xC2B5, 0xB2C8, 0xB2E4] @ ascii '': '' @ str_exc e))"
    by (simp add: call_failed_prefix_def)
  show ?thesis using a b gemini_in_message no_openai_in_message by blast
qed

text \<open>No credential, and a connection error.\<close>

theorem missing_credential_text_names_gemini_witness:
  "falsy (getenv unset_key_world OPENAI_API_KEY) \<and>
   is_Exception (Exc OtherException (ascii ''Connection error.'')) \<and>
   snd (generate_pr_message unset_key_world sample_git_info) =
     Inr (Some missing_credential_message) \<and>
   catch_exception (Inl (Exc OtherException (ascii ''Connection error.''))) =
     Inr (Some (call_failed_prefix @ ascii ''Connection error.''))"
proof -
  have k: "falsy (getenv unset_key_world OPENAI_API_KEY)"
    by (simp add: unset_key_world_def)
  have x: "is_Exception (Exc OtherException (ascii ''Connection error.''))" by simp
  from missing_credential_text_names_gemini[OF k, of sample_git_info
      "Exc OtherException (ascii ''Connection error.'')"] k x
  show ?thesis
    unfolding missing_credential_message_def call_failed_prefix_def by simp
qed

text \<open>
  C10. When \<^verbatim>\<open>OPENAI_API_KEY\<close> is set to the empty string, \<^verbatim>\<open>generate_pr_message\<close>
  does what it does when the variable is unset: it returns the missing-credential message and
  makes no remote call. With a non-empty value the guard is passed: once the client is built
  the remote call is made.
\<close>

theorem empty_credential_is_treated_as_unset:
  assumes "getenv w OPENAI_API_KEY = Some []"
  shows "generate_pr_message w gi =
           generate_pr_message (w\<lparr>getenv := (getenv w)(OPENAI_API_KEY := None)\<rparr>) gi \<and>
         generate_pr_message w gi =
           ([Getenv OPENAI_API_KEY], Inr (Some missing_credential_message)) \<and>
         \<not> list_ex is_remote_call (fst (generate_pr_message w gi)) \<and>
         (getenv w' OPENAI_API_KEY = Some k \<and> k \<noteq> [] \<and> openai_client w' k = None \<longrightarrow>
            list_ex is_remote_call (fst (generate_pr_message w' gi)))"
proof -
  have a: "generate_pr_message w gi =
           ([Getenv OPENAI_API_KEY], Inr (Some missing_credential_message))"
    using assms by (simp add: generate_falsy)
  have b: "generate_pr_message (w\<lparr>getenv := (getenv w)(OPENAI_API_KEY := None)\<rparr>) gi =
           ([Getenv OPENAI_API_KEY], Inr (Some missing_credential_message))"
    by (simp add: generate_falsy)
  have c: "getenv w' OPENAI_API_KEY = Some k \<and> k \<noteq> [] \<and> openai_client w' k = None \<Longrightarrow>
            list_ex is_remote_call (fst (generate_pr_message w' gi))"
    by (simp add: generate_truthy)
  show ?thesis using a b c by simp
qed

text \<open>An empty credential, and a non-empty one.\<close>

theorem empty_credential_is_treated_as_unset_witness:
  "getenv empty_key_world OPENAI_API_KEY = Some [] \<and>
   getenv healthy_world OPENAI_API_KEY = Some (ascii ''sk-test'') \<and> ascii ''sk-test'' \<noteq> [] \<and>
   openai_client healthy_world (ascii ''sk-test'') = None \<and>
   generate_pr_message empty_key_world sample_git_info =
     ([Getenv OPENAI_API_KEY], Inr (Some missing_credential_message)) \<and>
   list_ex is_remote_call (fst (generate_pr_message healthy_world sample_git_info))"
proof -
  have k: "getenv empty_key_world OPENAI_API_KEY = Some []"
    by (simp add: empty_key_world_def)
  have h: "getenv healthy_world OPENAI_API_KEY = Some (ascii ''sk-test'')" "ascii ''sk-test'' \<noteq> []"
    "openai_client healthy_world (ascii ''sk-test'') = None"
    by (simp_all add: healthy_world_def ascii_def)
  from empty_credential_is_treated_as_unset[OF k, of sample_git_info healthy_world "ascii ''sk-test''"] k h
  show ?thesis by blast
qed

end
